theory Spec2Isabelle
  imports Main "HOL-Library.AList" "HOL-Library.Word"
begin

text \<open>
  Three files of the atomic-swap daemon are verified here: the swap manager
  (\<open>protocol/swap/manager.go\<close>), the external transaction sender of package \<open>txsender\<close>
  and the maker's swap state of package \<open>xmrmaker\<close>. What they use from the rest of the
  repository is a parameter of the functions below, or is modelled from the
  specification where the text says so.
\<close>

section \<open>Swap records and the persistence behind the manager\<close>

text \<open>
  A \<open>types.Hash\<close> is a 32-byte array that the code only compares and uses as a map key,
  an Ethereum address a 20-byte array.
  Instants of \<open>time.Time\<close> and the values of \<open>apd.Decimal\<close> are abstract numbers.
  A pointer to an \<open>Info\<close> is an address into the heap of \<open>Info\<close> objects, a list that grows
  at its end; an address beyond the end stands for the nil pointer. The \<open>*apd.Decimal\<close>,
  \<open>*coins.ExchangeRate\<close> and \<open>*time.Time\<close> fields of an \<open>Info\<close> are pointers as well:
  the struct holds an address into the heap of decimals or into the heap of instants,
  and two structs that hold the same address share the object behind it.
\<close>

type_synonym hash = "256 word"
type_synonym instant = nat
type_synonym addr = nat
type_synonym decimal = int
type_synonym dec_ref = nat
type_synonym time_ref = nat
type_synonym address = "160 word"

text \<open>
  \<open>types.Status\<close> is declared in package \<open>common/types\<close>, outside the three files; the
  constructors are the status names that the three files and the specification use.
\<close>

datatype Status =
    ExpectingKeys
  | KeysExchanged
  | ETHLocked
  | XMRLocked
  | ContractReady
  | CompletedSuccess
  | CompletedRefund
  | CompletedAbort

text \<open>
  Modelled from the spec: \<open>Status.IsOngoing\<close> of package \<open>common/types\<close> is missing here.
  The glossary says "Ongoing vs past: operational dichotomy on swap status; terminal
  statuses are past", and the terminal statuses are success, refund and abort.
\<close>

fun IsOngoing :: "Status \<Rightarrow> bool" where
  "IsOngoing CompletedSuccess = False"
| "IsOngoing CompletedRefund = False"
| "IsOngoing CompletedAbort = False"
| "IsOngoing _ = True"

datatype ProvidesCoin = ProvidesXMR | ProvidesETH

text \<open>The fields of \<open>swap.Info\<close> that the three files read or write.\<close>

record Info =
  OfferID :: hash
  Provides :: ProvidesCoin
  ProvidedAmount :: dec_ref
  ExpectedAmount :: dec_ref
  ExchangeRate :: dec_ref
  EthAsset :: address
  Status :: Status
  MoneroStartHeight :: "64 word"
  EndTime :: "time_ref option"

datatype db_error = ErrKeyNotFound | DbFailure nat

text \<open>
  The errors of the packages modelled here. \<open>errNoSwapWithID\<close> is an unexported variable
  of package \<open>swap\<close>, so no database outside the package returns it: database errors
  are a type of their own, passed on unchanged as \<open>DbErr\<close>. \<open>Wrapped\<close> is
  \<open>fmt.Errorf\<close> with the verb \<open>%w\<close> around an error, \<open>Described\<close> is \<open>fmt.Errorf\<close>
  that only prints the error with \<open>%s\<close>, \<open>External\<close> is an error of a collaborator
  outside the three files, \<open>Panic\<close> a runtime panic.
\<close>

datatype error =
    ErrNoSwapWithID
  | DbErr db_error
  | ErrTransactionTimeout
  | ErrERC20Unsupported
  | ErrSwapDoesNotExist
  | ErrInvalidStageForRecovery
  | ErrUnexpectedMessageType
  | ErrAlreadyCompleted
  | ErrLogNotForUs
  | ErrAbiMethodNotFound string
  | ErrAbiArgumentCount nat nat
  | ErrAbiArgumentType
  | Wrapped string error
  | Described string error
  | External nat
  | Panic string

text \<open>
  Modelled from the spec: the \<open>Database\<close> interface behind the manager (\<open>PutSwap\<close>,
  \<open>GetSwap\<close>, \<open>GetAllSwaps\<close>) and its implementation are missing here. Section 4.1:
  an opaque key/value store keyed by offer id, with put and get per record and
  \<open>GetAllSwaps\<close>; every write is atomic per record. Each operation can fail: the
  \<open>_err\<close> fields say whether the next call of that operation does. A stored record is
  the struct as \<open>PutSwap\<close> receives it, with the addresses that its pointer fields hold.
\<close>

record Database =
  stored :: "Info list"
  PutSwap_err :: "db_error option"
  GetSwap_err :: "db_error option"
  GetAllSwaps_err :: "db_error option"

definition put_record :: "Info \<Rightarrow> Info list \<Rightarrow> Info list" where
  "put_record i xs =
     (if OfferID i \<in> set (map OfferID xs)
      then map (\<lambda>x. if OfferID x = OfferID i then i else x) xs
      else xs @ [i])"

definition PutSwap :: "Database \<Rightarrow> Info \<Rightarrow> db_error option \<times> Database" where
  "PutSwap d i =
     (case PutSwap_err d of
        Some e \<Rightarrow> (Some e, d)
      | None \<Rightarrow> (None, d\<lparr>stored := put_record i (stored d)\<rparr>))"

definition GetSwap :: "Database \<Rightarrow> hash \<Rightarrow> db_error + Info" where
  "GetSwap d k =
     (case GetSwap_err d of
        Some e \<Rightarrow> Inl e
      | None \<Rightarrow>
          (case find (\<lambda>x. OfferID x = k) (stored d) of
             None \<Rightarrow> Inl ErrKeyNotFound
           | Some i \<Rightarrow> Inr i))"

definition GetAllSwaps :: "Database \<Rightarrow> db_error + Info list" where
  "GetAllSwaps d =
     (case GetAllSwaps_err d of
        Some e \<Rightarrow> Inl e
      | None \<Rightarrow> Inr (stored d))"

section \<open>The swap manager\<close>

text \<open>
  \<open>manager\<close> of \<open>protocol/swap/manager.go\<close>. The two Go maps hold pointers, so they are
  association lists from offer id to address, read with \<open>map_of\<close> and changed with
  \<open>AList.update\<close> and \<open>AList.delete\<close>; the order of the list stands for the order in which
  Go happens to range over the map, which the language leaves open. \<open>mem\<close> is the heap
  of \<open>Info\<close> objects that the pointers refer to; callers hold pointers into the same heap.
  \<open>times\<close> and \<open>decimals\<close> are the heaps of the objects that the pointer fields of the
  structs refer to. The mutex is not modelled: every operation runs alone.
\<close>

record manager =
  db :: Database
  ongoing :: "(hash \<times> addr) list"
  past :: "(hash \<times> addr) list"
  mem :: "Info list"
  times :: "instant list"
  decimals :: "decimal list"

definition alloc :: "'a list \<Rightarrow> 'a \<Rightarrow> nat \<times> 'a list" where
  "alloc h v = (length h, h @ [v])"

text \<open>Every pointer held by the maps refers to an allocated object.\<close>

definition valid_manager :: "manager \<Rightarrow> bool" where
  "valid_manager m =
     (list_all (\<lambda>p. snd p < length (mem m)) (ongoing m) \<and>
      list_all (\<lambda>p. snd p < length (mem m)) (past m))"

definition AddSwap :: "manager \<Rightarrow> addr \<Rightarrow> error option \<times> manager" where
  "AddSwap m info =
     (if length (mem m) \<le> info then (Some (Panic ''nil pointer dereference''), m)
      else
        let i = mem m ! info;
            m1 = (if IsOngoing (Status i)
                  then m\<lparr>ongoing := AList.update (OfferID i) info (ongoing m)\<rparr>
                  else m\<lparr>past := AList.update (OfferID i) info (past m)\<rparr>);
            (err, d) = PutSwap (db m1) i
        in (map_option DbErr err, m1\<lparr>db := d\<rparr>))"

text \<open>
  \<open>GetPastIDs\<close>: \<open>ids\<close> is a Go map used as a set, here a list without duplicates that
  \<open>List.insert\<close> extends; the result array lists the set in the order of the range loop.
\<close>

definition GetPastIDs :: "manager \<Rightarrow> error + hash list" where
  "GetPastIDs m =
     (let ids = fold (\<lambda>p acc. List.insert (fst p) acc) (past m) []
      in case GetAllSwaps (db m) of
           Inl e \<Rightarrow> Inl (DbErr e)
         | Inr ss \<Rightarrow>
             Inr (fold (\<lambda>s acc. if IsOngoing (Status s) then acc
                                 else List.insert (OfferID s) acc) ss ids))"

text \<open>
  \<open>getSwapFromDB\<close>: \<open>errors.Is(chaindb.ErrKeyNotFound, err)\<close> holds exactly when the
  database returned that very error; any other error is passed on.
\<close>

definition getSwapFromDB :: "manager \<Rightarrow> hash \<Rightarrow> error + Info" where
  "getSwapFromDB m k =
     (case GetSwap (db m) k of
        Inl e \<Rightarrow> (if e = ErrKeyNotFound then Inl ErrNoSwapWithID else Inl (DbErr e))
      | Inr s \<Rightarrow> Inr s)"

text \<open>
  \<open>GetPastSwap\<close>: the record that the database decodes is a new object, allocated here;
  it is cached under its own offer id.
\<close>

definition GetPastSwap :: "manager \<Rightarrow> hash \<Rightarrow> (error + addr) \<times> manager" where
  "GetPastSwap m k =
     (case map_of (past m) k of
        Some s \<Rightarrow> (Inr s, m)
      | None \<Rightarrow>
          (case getSwapFromDB m k of
             Inl e \<Rightarrow> (Inl e, m)
           | Inr i \<Rightarrow>
               let (s, h) = alloc (mem m) i
               in (Inr s, m\<lparr>mem := h, past := AList.update (OfferID i) s (past m)\<rparr>)))"

text \<open>\<open>GetOngoingSwap\<close> returns the struct itself (\<open>*s\<close>), not the pointer.\<close>

definition GetOngoingSwap :: "manager \<Rightarrow> hash \<Rightarrow> error + Info" where
  "GetOngoingSwap m k =
     (case map_of (ongoing m) k of
        None \<Rightarrow> Inl ErrNoSwapWithID
      | Some s \<Rightarrow> Inr (mem m ! s))"

text \<open>
  \<open>GetOngoingSwaps\<close>: for every entry, \<open>new(Info)\<close> allocates an object, the stored struct
  is assigned to it and its pointer is put into the result.
\<close>

fun copy_all :: "Info list \<Rightarrow> addr list \<Rightarrow> addr list \<times> Info list" where
  "copy_all h [] = ([], h)"
| "copy_all h (s # ss) =
     (let (sCopy, h1) = alloc h (h ! s);
          (rest, h2) = copy_all h1 ss
      in (sCopy # rest, h2))"

definition GetOngoingSwaps :: "manager \<Rightarrow> addr list \<times> manager" where
  "GetOngoingSwaps m =
     (let (swaps, h) = copy_all (mem m) (map snd (ongoing m))
      in (swaps, m\<lparr>mem := h\<rparr>))"

text \<open>
  \<open>CompleteOngoingSwap\<close>: \<open>now\<close> is the value of \<open>time.Now()\<close>, held by a new variable
  whose address \<open>&now\<close> is stored in the struct. The statements run in the order of the
  source: the lookup, the end time, the insertion into \<open>past\<close>, the deletion from
  \<open>ongoing\<close>, and last the write to the database, whose error is the result.
\<close>

definition CompleteOngoingSwap :: "manager \<Rightarrow> addr \<Rightarrow> instant \<Rightarrow> error option \<times> manager" where
  "CompleteOngoingSwap m info now =
     (if length (mem m) \<le> info then (Some (Panic ''nil pointer dereference''), m)
      else
        case map_of (ongoing m) (OfferID (mem m ! info)) of
          None \<Rightarrow> (Some ErrNoSwapWithID, m)
        | Some _ \<Rightarrow>
            let (t, ts) = alloc (times m) now;
                m1 = m\<lparr>times := ts,
                       mem := (mem m)[info := (mem m ! info)\<lparr>EndTime := Some t\<rparr>]\<rparr>;
                m2 = m1\<lparr>past := AList.update (OfferID (mem m1 ! info)) info (past m1)\<rparr>;
                m3 = m2\<lparr>ongoing := AList.delete (OfferID (mem m2 ! info)) (ongoing m2)\<rparr>;
                (err, d) = PutSwap (db m3) (mem m3 ! info)
            in (map_option DbErr err, m3\<lparr>db := d\<rparr>))"

definition HasOngoingSwap :: "manager \<Rightarrow> hash \<Rightarrow> bool" where
  "HasOngoingSwap m k = (map_of (ongoing m) k \<noteq> None)"

section \<open>The external transaction sender\<close>

text \<open>
  Package \<open>txsender\<close>. A \<open>time.Duration\<close> counts nanoseconds. The variable
  \<open>transactionTimeout\<close> is declared at package level, so it is a field of the package's
  state and not of an \<open>ExternalSender\<close>.
\<close>

type_synonym duration = int
type_synonym bytes = "8 word list"
type_synonym receipt = nat

definition Minute :: duration where
  "Minute = 60 * 1000000000"

definition Hour :: duration where
  "Hour = 60 * Minute"

record txsender_package =
  transactionTimeout :: duration

definition txsender_init :: txsender_package where
  "txsender_init = \<lparr>transactionTimeout = Minute * 2\<rparr>"

datatype Environment = Mainnet | Stagenet | Development | OtherEnvironment

record SwapCreatorSwap =
  Timeout0 :: int
  Timeout1 :: int

datatype abi_arg =
    ArgBytes32 hash
  | ArgAddress address
  | ArgInt int
  | ArgSwap SwapCreatorSwap

text \<open>
  \<open>abi.Pack\<close> of go-ethereum: the method is looked up by its name ("method not
  found"), the number of arguments is compared with the number of its inputs ("argument
  count mismatch: got n for m"), each argument is checked against the type of its
  input, and then the call is encoded. The encoding is a parameter.
\<close>

datatype abi_type = TBytes32 | TAddress | TUint256 | TSwap

fun arg_type :: "abi_arg \<Rightarrow> abi_type" where
  "arg_type (ArgBytes32 x) = TBytes32"
| "arg_type (ArgAddress x) = TAddress"
| "arg_type (ArgInt x) = TUint256"
| "arg_type (ArgSwap x) = TSwap"

type_synonym ABI = "(string \<times> abi_type list) list"

definition Pack ::
  "ABI \<Rightarrow> (string \<Rightarrow> abi_arg list \<Rightarrow> bytes) \<Rightarrow> string \<Rightarrow> abi_arg list \<Rightarrow> error + bytes" where
  "Pack abi encode name args =
     (case map_of abi name of
        None \<Rightarrow> Inl (ErrAbiMethodNotFound name)
      | Some inputs \<Rightarrow>
          if length args \<noteq> length inputs
          then Inl (ErrAbiArgumentCount (length args) (length inputs))
          else if map arg_type args \<noteq> inputs then Inl ErrAbiArgumentType
          else Inr (encode name args))"

text \<open>
  Modelled from the spec: \<open>contracts.SwapCreatorParsedABI\<close>, the parsed ABI of the swap
  contract, is missing here. Section 6 gives the contract surface:
  \<open>newSwap(commit_claim, commit_refund, claimer, t0_duration, t1_duration, asset, value,
  nonce)\<close>, \<open>setReady(swap)\<close>, \<open>claim(swap, secret)\<close>, \<open>refund(swap, secret)\<close>. The test
  of the relayer calls the contract's binding \<open>NewSwap\<close> with the same eight arguments.
\<close>

definition SwapCreatorParsedABI :: ABI where
  "SwapCreatorParsedABI =
     [(''newSwap'', [TBytes32, TBytes32, TAddress, TUint256, TUint256, TAddress, TUint256,
                     TUint256]),
      (''setReady'', [TSwap]),
      (''claim'', [TSwap, TBytes32]),
      (''refund'', [TSwap, TBytes32])]"

record Transaction =
  To :: address
  Data :: bytes
  Value :: "dec_ref option"

text \<open>
  \<open>coins.EthAssetAmount\<close> is an interface declared outside the three files; the fields
  are the results of the four methods that \<open>NewSwap\<close> calls.
\<close>

record EthAssetAmount =
  IsToken :: bool
  TokenAddress :: address
  BigInt :: int
  AsStandard :: dec_ref

text \<open>
  \<open>abi_Pack\<close> is \<open>s.abi.Pack\<close>: \<open>NewExternalSender\<close> sets the field \<open>abi\<close> to the
  package variable \<open>contracts.SwapCreatorParsedABI\<close>, so the program only ever runs with
  \<open>abi_Pack = Pack SwapCreatorParsedABI encode\<close>. The context and the Ethereum client
  are only handed to \<open>block.WaitForReceipt\<close>, and the two channels belong to the front
  end below.
\<close>

record ExternalSender =
  abi_Pack :: "string \<Rightarrow> abi_arg list \<Rightarrow> error + bytes"
  contractAddr :: address
  erc20Addr :: address

text \<open>
  What the front end on the other side of the two unbuffered channels does during one
  call: whether it ever receives from \<open>out\<close> (if not, the send blocks for good), after
  which duration from that moment it offers a hash on \<open>in\<close> (\<open>None\<close>: never), and
  which branch the \<open>select\<close> takes when the hash and the timer are ready at the same
  instant. \<open>WaitForReceipt\<close> is \<open>block.WaitForReceipt\<close>, declared outside the three
  files; \<open>None\<close> is a wait that never ends.
\<close>

record front_end =
  receives_out :: bool
  hash_after :: "duration option"
  hash_sent :: hash
  tie_takes_hash :: bool
  WaitForReceipt :: "hash \<Rightarrow> (error + receipt) option"

definition NewExternalSender ::
  "txsender_package \<Rightarrow> Environment \<Rightarrow> (string \<Rightarrow> abi_arg list \<Rightarrow> error + bytes) \<Rightarrow>
   address \<Rightarrow> address \<Rightarrow> ExternalSender \<times> txsender_package" where
  "NewExternalSender g env parsedABI contractAddr' erc20Addr' =
     (let g1 = (case env of
                  Mainnet \<Rightarrow> g\<lparr>transactionTimeout := Hour\<rparr>
                | Stagenet \<Rightarrow> g\<lparr>transactionTimeout := Hour\<rparr>
                | _ \<Rightarrow> g)
      in (\<lparr>abi_Pack = parsedABI, contractAddr = contractAddr', erc20Addr = erc20Addr'\<rparr>, g1))"

definition SetSwapCreatorAddr :: "ExternalSender \<Rightarrow> address \<Rightarrow> ExternalSender" where
  "SetSwapCreatorAddr s a = s\<lparr>contractAddr := a\<rparr>"

text \<open>
  The tail that \<open>NewSwap\<close> and \<open>sendAndReceive\<close> share word for word: the send on
  \<open>out\<close>, the \<open>select\<close> between \<open>time.After(transactionTimeout)\<close> and the receive from
  \<open>in\<close>, and the wait for the receipt. The result is \<open>None\<close> when the call never
  returns; the second component lists the transactions that the call sends on \<open>out\<close>,
  a send that no one receives included.
\<close>

definition sign_round_trip ::
  "txsender_package \<Rightarrow> front_end \<Rightarrow> Transaction \<Rightarrow> (error + receipt) option \<times> Transaction list" where
  "sign_round_trip g fe tx =
     (if \<not> receives_out fe then (None, [tx])
      else
        case hash_after fe of
          None \<Rightarrow> (Some (Inl ErrTransactionTimeout), [tx])
        | Some d \<Rightarrow>
            if d < transactionTimeout g \<or> (d = transactionTimeout g \<and> tie_takes_hash fe)
            then (WaitForReceipt fe (hash_sent fe), [tx])
            else (Some (Inl ErrTransactionTimeout), [tx]))"

definition NewSwap ::
  "txsender_package \<Rightarrow> ExternalSender \<Rightarrow> front_end \<Rightarrow> hash \<Rightarrow> hash \<Rightarrow> address \<Rightarrow> int \<Rightarrow> int \<Rightarrow>
   EthAssetAmount \<Rightarrow> (error + receipt) option \<times> Transaction list" where
  "NewSwap g s fe pubKeyClaim pubKeyRefund claimer timeoutDuration nonce amount =
     (if IsToken amount then (Some (Inl ErrERC20Unsupported), [])
      else
        case abi_Pack s ''new_swap''
               [ArgBytes32 pubKeyClaim, ArgBytes32 pubKeyRefund, ArgAddress claimer,
                ArgInt timeoutDuration, ArgAddress (TokenAddress amount),
                ArgInt (BigInt amount), ArgInt nonce] of
          Inl e \<Rightarrow> (Some (Inl e), [])
        | Inr input \<Rightarrow>
            sign_round_trip g fe
              \<lparr>To = contractAddr s, Data = input, Value = Some (AsStandard amount)\<rparr>)"

definition sendAndReceive ::
  "txsender_package \<Rightarrow> front_end \<Rightarrow> bytes \<Rightarrow> address \<Rightarrow>
   (error + receipt) option \<times> Transaction list" where
  "sendAndReceive g fe input to = sign_round_trip g fe \<lparr>To = to, Data = input, Value = None\<rparr>"

definition SetReady ::
  "txsender_package \<Rightarrow> ExternalSender \<Rightarrow> front_end \<Rightarrow> SwapCreatorSwap \<Rightarrow>
   (error + receipt) option \<times> Transaction list" where
  "SetReady g s fe swap =
     (case abi_Pack s ''set_ready'' [ArgSwap swap] of
        Inl e \<Rightarrow> (Some (Inl e), [])
      | Inr input \<Rightarrow> sendAndReceive g fe input (contractAddr s))"

section \<open>The maker's swap state\<close>

text \<open>
  Package \<open>xmrmaker\<close>. \<open>EventType\<close> and the events are declared in another file of the
  package; the constructors are the values that the swap state names, and one more for
  every other value.
\<close>

datatype EventType =
    EventETHLockedType
  | EventContractReadyType
  | EventNoneType
  | EventTypeOther nat

datatype Event = EventETHRefunded | EventContractReady | EventOfOtherType

datatype Stage = StageInvalid | StagePending | StageReady | StageCompleted | StageOther nat

record Log =
  Topics :: "hash list"
  Removed :: bool
  BlockNumber :: nat

record Offer =
  ID :: hash
  EthAsset_IsToken :: bool
  EthAsset_Address :: address

record EthereumSwapInfo =
  StartNumber :: int
  SwapCreatorAddr :: address
  SwapID :: hash
  Swap :: SwapCreatorSwap

text \<open>
  The fields of \<open>swapState\<close> that the modelled functions read or write. \<open>info\<close> is the
  pointer that the manager's map holds as well; keys are opaque.
\<close>

record swapState =
  info :: addr
  offer :: Offer
  offerExtra_UseRelayer :: bool
  moneroStartHeight :: "64 word"
  nextExpectedEvent :: EventType
  swapCreatorAddr :: address
  contractSwapID :: hash
  contractSwap :: "SwapCreatorSwap option"
  privkeys :: "nat option"
  pubkeys :: "nat option"
  timeouts :: "(int \<times> int) option"

text \<open>
  Calls that leave the three files: to the network, the offer manager, the recovery
  database, the Monero and Ethereum clients, the watchers and the goroutines. A run
  records them in the order in which the code makes them.
\<close>

datatype call =
    CloseProtocolStream hash
  | AddOffer Offer bool
  | DeleteOffer hash
  | RecoveryDB_DeleteSwap hash
  | CancelSwapContext
  | CloseDone
  | GetBalance
  | SetNextExpectedEvent EventType
  | ClearNextExpectedEvent Status
  | Transfer address int
  | NewIERC20 address
  | NewTxSender address
  | WatcherStart string
  | GoRunHandleEvents
  | GoRunContractEventWatcher
  | NewSwapCreator address
  | SetTimeouts int int

record world =
  swaps :: manager
  calls :: "call list"

definition record_call :: "call \<Rightarrow> world \<Rightarrow> world" where
  "record_call c w = w\<lparr>calls := calls w @ [c]\<rparr>"

text \<open>
  The outcomes of the calls that leave the three files, and the pure helpers declared
  outside them (\<open>Offer.IsSet\<close>, \<open>pcommon.CheckSwapID\<close>, \<open>nextExpectedEventFromStatus\<close>,
  the derivation of the joint Monero address, the topic of the Claimed event). They are
  parameters: the functions below are stated for every choice of them.
\<close>

record collaborators =
  time_Now :: instant
  Offer_IsSet :: "Offer \<Rightarrow> bool"
  AddOffer_err :: "error option"
  DeleteOffer_err :: "error option"
  DeleteSwap_err :: "error option"
  GetBalance_err :: "error option"
  setNextExpectedEvent_err :: "EventType \<Rightarrow> error option"
  Transfer_err :: "error option"
  swapDestAddr :: "swapState \<Rightarrow> address"
  contracts_NewSwapCreator_err :: "error option"
  Backend_NewSwapCreator_err :: "error option"
  Swaps_result :: "hash \<Rightarrow> error + Stage"
  FilterLogs_result :: "int \<Rightarrow> address \<Rightarrow> error + Log list"
  claimedTopic :: hash
  CheckSwapID :: "Log \<Rightarrow> hash \<Rightarrow> hash \<Rightarrow> error option"
  NewIERC20_err :: "error option"
  NewTxSender_err :: "error option"
  readyWatcher_Start_err :: "error option"
  refundedWatcher_Start_err :: "error option"
  nextExpectedEventFromStatus :: "Status \<Rightarrow> EventType"
  eventCh_receive :: "Event option"
  handleEventETHRefunded :: "swapState \<Rightarrow> world \<Rightarrow> error option \<times> swapState \<times> world"
  handleEventContractReady :: "swapState \<Rightarrow> world \<Rightarrow> error option \<times> swapState \<times> world"

text \<open>\<open>errors.Is\<close>: the error itself, or an error it wraps with \<open>%w\<close>.\<close>

fun errors_Is :: "error \<Rightarrow> error \<Rightarrow> bool" where
  "errors_Is (Wrapped msg e) target = (Wrapped msg e = target \<or> errors_Is e target)"
| "errors_Is e target = (e = target)"

text \<open>
  Modelled from the spec: \<open>Info.SetStatus\<close> of package \<open>swap\<close> is missing here; it stores
  the status in the record (section 3: the status is a field of the Swap Info).
\<close>

definition SetStatus :: "world \<Rightarrow> addr \<Rightarrow> Status \<Rightarrow> world" where
  "SetStatus w p st =
     w\<lparr>swaps := (swaps w)\<lparr>mem := (mem (swaps w))[p := (mem (swaps w) ! p)\<lparr>Status := st\<rparr>]\<rparr>\<rparr>"

text \<open>
  Modelled from the spec: \<open>setNextExpectedEvent\<close> of package \<open>xmrmaker\<close> is missing here.
  Section 4.5 calls it "persist next-expected-event": it can fail, and when it does
  not, the state machine expects that event next.
\<close>

definition setNextExpectedEvent ::
  "collaborators \<Rightarrow> swapState \<Rightarrow> EventType \<Rightarrow> world \<Rightarrow> error option \<times> swapState \<times> world" where
  "setNextExpectedEvent c s ev w =
     (let w1 = record_call (SetNextExpectedEvent ev) w
      in case setNextExpectedEvent_err c ev of
           Some e \<Rightarrow> (Some e, s, w1)
         | None \<Rightarrow> (None, s\<lparr>nextExpectedEvent := ev\<rparr>, w1))"

text \<open>
  Modelled from the spec: \<open>clearNextExpectedEvent\<close> of package \<open>xmrmaker\<close> is missing
  here. Sections 4.7 and 5: on exit before the lock the swap is aborted; the call
  leaves the state machine with no next event and the record in the terminal status
  it is called with.
\<close>

definition clearNextExpectedEvent :: "swapState \<Rightarrow> Status \<Rightarrow> world \<Rightarrow> swapState \<times> world" where
  "clearNextExpectedEvent s st w =
     (s\<lparr>nextExpectedEvent := EventNoneType\<rparr>,
      SetStatus (record_call (ClearNextExpectedEvent st) w) (info s) st)"

text \<open>
  \<open>checkIfAlreadyClaimed\<close>. \<open>claimed_log_found\<close> is its loop over the filtered logs:
  \<open>l.Topics[0]\<close> panics on a log without topics; a log counts unless its first topic
  differs, it is removed, or \<open>CheckSwapID\<close> returns an error that is \<open>ErrLogNotForUs\<close>.
\<close>

fun claimed_log_found :: "collaborators \<Rightarrow> hash \<Rightarrow> Log list \<Rightarrow> error + bool" where
  "claimed_log_found c sid [] = Inr False"
| "claimed_log_found c sid (l # ls) =
     (case Topics l of
        [] \<Rightarrow> Inl (Panic ''index out of range'')
      | t # _ \<Rightarrow>
          if t \<noteq> claimedTopic c then claimed_log_found c sid ls
          else if Removed l then claimed_log_found c sid ls
          else
            case CheckSwapID c l (claimedTopic c) sid of
              None \<Rightarrow> Inr True
            | Some e \<Rightarrow>
                if errors_Is e ErrLogNotForUs then claimed_log_found c sid ls
                else Inr True)"

definition checkIfAlreadyClaimed :: "collaborators \<Rightarrow> EthereumSwapInfo \<Rightarrow> error + bool" where
  "checkIfAlreadyClaimed c ethSwapInfo =
     (case contracts_NewSwapCreator_err c of
        Some e \<Rightarrow> Inl e
      | None \<Rightarrow>
          case Swaps_result c (SwapID ethSwapInfo) of
            Inl e \<Rightarrow> Inl e
          | Inr stage \<Rightarrow>
              case stage of
                StageInvalid \<Rightarrow>
                  Inl (Wrapped ''contract swap ID'' ErrSwapDoesNotExist)
              | StageCompleted \<Rightarrow>
                  (case FilterLogs_result c (StartNumber ethSwapInfo)
                          (SwapCreatorAddr ethSwapInfo) of
                     Inl e \<Rightarrow> Inl (Described ''failed to filter logs for topic'' e)
                   | Inr logs \<Rightarrow> claimed_log_found c (SwapID ethSwapInfo) logs)
              | StagePending \<Rightarrow> Inr False
              | StageReady \<Rightarrow> Inr False
              | StageOther _ \<Rightarrow> Inl (Panic ''Unhandled stage value''))"

text \<open>The package-level \<open>completeSwap\<close> that recovery calls.\<close>

definition completeSwap :: "collaborators \<Rightarrow> addr \<Rightarrow> world \<Rightarrow> error option \<times> world" where
  "completeSwap c p w =
     (if length (mem (swaps w)) \<le> p then (Some (Panic ''nil pointer dereference''), w)
      else
        let w1 = SetStatus w p CompletedSuccess;
            (err, m) = CompleteOngoingSwap (swaps w1) p (time_Now c);
            w2 = w1\<lparr>swaps := m\<rparr>
        in case err of
             Some e \<Rightarrow> (Some (Described ''failed to mark swap as completed'' e), w2)
           | None \<Rightarrow>
               let w3 = record_call (DeleteOffer (OfferID (mem (swaps w2) ! p))) w2
               in case DeleteOffer_err c of
                    Some e \<Rightarrow> (Some (Described ''failed to delete offer from db'' e), w3)
                  | None \<Rightarrow>
                      let w4 = record_call
                                 (RecoveryDB_DeleteSwap (OfferID (mem (swaps w3) ! p))) w3
                      in case DeleteSwap_err c of
                           Some e \<Rightarrow>
                             (Some (Described ''failed to delete temporary swap info from db'' e),
                              w4)
                         | None \<Rightarrow> (None, w4))"

text \<open>
  \<open>newSwapState\<close>: the sender, the two watchers, the state and the two goroutines. The
  channels and the context are not fields of the model; starting a watcher and a
  goroutine is recorded.
\<close>

definition newSwapState ::
  "collaborators \<Rightarrow> Offer \<Rightarrow> bool \<Rightarrow> int \<Rightarrow> 64 word \<Rightarrow> addr \<Rightarrow> world \<Rightarrow>
   (error + swapState) \<times> world" where
  "newSwapState c offer' useRelayer ethStartNumber moneroStartNumber p w =
     (let (senderErr, w1) =
            (if EthAsset_IsToken offer'
             then
               let wa = record_call (NewIERC20 (EthAsset_Address offer')) w
               in case NewIERC20_err c of
                    Some e \<Rightarrow> (Some e, wa)
                  | None \<Rightarrow>
                      (NewTxSender_err c, record_call (NewTxSender (EthAsset_Address offer')) wa)
             else (NewTxSender_err c, record_call (NewTxSender (EthAsset_Address offer')) w))
      in case senderErr of
           Some e \<Rightarrow> (Inl e, w1)
         | None \<Rightarrow>
             let w2 = record_call (WatcherStart ''ready'') w1
             in case readyWatcher_Start_err c of
                  Some e \<Rightarrow> (Inl e, record_call CancelSwapContext w2)
                | None \<Rightarrow>
                    let w3 = record_call (WatcherStart ''refunded'') w2
                    in case refundedWatcher_Start_err c of
                         Some e \<Rightarrow> (Inl e, record_call CancelSwapContext w3)
                       | None \<Rightarrow>
                           (Inr \<lparr>info = p, offer = offer',
                                 offerExtra_UseRelayer = useRelayer,
                                 moneroStartHeight = moneroStartNumber,
                                 nextExpectedEvent =
                                   nextExpectedEventFromStatus c (Status (mem (swaps w3) ! p)),
                                 swapCreatorAddr = 0, contractSwapID = 0,
                                 contractSwap = None, privkeys = None, pubkeys = None,
                                 timeouts = None\<rparr>,
                            record_call GoRunContractEventWatcher
                              (record_call GoRunHandleEvents w3)))"

definition setContract ::
  "collaborators \<Rightarrow> swapState \<Rightarrow> address \<Rightarrow> world \<Rightarrow> error option \<times> swapState \<times> world" where
  "setContract c s a w =
     (let s1 = s\<lparr>swapCreatorAddr := a\<rparr>;
          w1 = record_call (NewSwapCreator a) w
      in case Backend_NewSwapCreator_err c of
           Some e \<Rightarrow> (Some e, s1, w1)
         | None \<Rightarrow> (None, s1, w1))"

text \<open>
  \<open>newSwapStateFromOngoing\<close>. \<open>sk\<close> is the persisted key pair; \<open>PublicKeyPair\<close> and
  \<open>setTimeouts\<close> are declared outside the three files and only store values.
\<close>

definition newSwapStateFromOngoing ::
  "collaborators \<Rightarrow> Offer \<Rightarrow> bool \<Rightarrow> EthereumSwapInfo \<Rightarrow> addr \<Rightarrow> nat \<Rightarrow> world \<Rightarrow>
   (error + swapState) \<times> world" where
  "newSwapStateFromOngoing c offer' useRelayer ethSwapInfo p sk w =
     (case checkIfAlreadyClaimed c ethSwapInfo of
        Inl e \<Rightarrow> (Inl e, w)
      | Inr alreadyClaimed \<Rightarrow>
          if alreadyClaimed then
            (case completeSwap c p w of
               (Some e, w1) \<Rightarrow> (Inl (Wrapped ''failed to complete swap'' e), w1)
             | (None, w1) \<Rightarrow> (Inl ErrAlreadyCompleted, w1))
          else if length (mem (swaps w)) \<le> p then (Inl (Panic ''nil pointer dereference''), w)
          else if Status (mem (swaps w) ! p) \<noteq> XMRLocked
          then (Inl ErrInvalidStageForRecovery, w)
          else
            case newSwapState c offer' useRelayer (StartNumber ethSwapInfo)
                   (MoneroStartHeight (mem (swaps w) ! p)) p w of
              (Inl e, w1) \<Rightarrow> (Inl e, w1)
            | (Inr s, w1) \<Rightarrow>
                (case setContract c s (SwapCreatorAddr ethSwapInfo) w1 of
                   (Some e, s1, w2) \<Rightarrow> (Inl e, w2)
                 | (None, s1, w2) \<Rightarrow>
                     (Inr (s1\<lparr>timeouts := Some (Timeout0 (Swap ethSwapInfo),
                                                  Timeout1 (Swap ethSwapInfo)),
                              privkeys := Some sk, pubkeys := Some sk,
                              contractSwapID := SwapID ethSwapInfo,
                              contractSwap := Some (Swap ethSwapInfo)\<rparr>),
                      record_call (SetTimeouts (Timeout0 (Swap ethSwapInfo))
                                     (Timeout1 (Swap ethSwapInfo))) w2)))"

text \<open>
  \<open>exit\<close>. \<open>exit_deferred\<close> is the deferred function, which runs when the body returns:
  it closes the stream, completes the swap in the manager and returns at once if that
  fails; otherwise it re-adds the offer when the status is not \<open>CompletedSuccess\<close> and
  the offer is set, deletes the offer when the status is \<open>CompletedSuccess\<close>, and then
  deletes the recovery data, cancels the context and closes \<open>done\<close>. The errors of the
  offer manager and of the recovery database are only logged.
\<close>

definition exit_deferred :: "collaborators \<Rightarrow> swapState \<Rightarrow> world \<Rightarrow> world" where
  "exit_deferred c s w =
     (let w1 = record_call (CloseProtocolStream (OfferID (mem (swaps w) ! info s))) w;
          (err, m) = CompleteOngoingSwap (swaps w1) (info s) (time_Now c);
          w2 = w1\<lparr>swaps := m\<rparr>
      in case err of
           Some e \<Rightarrow> w2
         | None \<Rightarrow>
             let st = Status (mem (swaps w2) ! info s);
                 w3 = (if st \<noteq> CompletedSuccess \<and> Offer_IsSet c (offer s)
                       then record_call (AddOffer (offer s) (offerExtra_UseRelayer s)) w2
                       else if st = CompletedSuccess
                       then record_call (DeleteOffer (ID (offer s))) w2
                       else w2);
                 w4 = record_call (RecoveryDB_DeleteSwap (ID (offer s))) w3
             in record_call CloseDone (record_call CancelSwapContext w4))"

text \<open>
  The body of \<open>exit\<close>. In the \<open>EventContractReadyType\<close> case it receives from the event
  channel, which blocks until an event arrives: the result is \<open>None\<close> when none ever
  does.
\<close>

definition exit_body ::
  "collaborators \<Rightarrow> swapState \<Rightarrow> world \<Rightarrow> (error option \<times> swapState \<times> world) option" where
  "exit_body c s w =
     (case nextExpectedEvent s of
        EventETHLockedType \<Rightarrow>
          (let (s1, w1) = clearNextExpectedEvent s CompletedAbort w in Some (None, s1, w1))
      | EventContractReadyType \<Rightarrow>
          (case eventCh_receive c of
             None \<Rightarrow> None
           | Some EventETHRefunded \<Rightarrow> Some (handleEventETHRefunded c s w)
           | Some EventContractReady \<Rightarrow> Some (handleEventContractReady c s w)
           | Some EventOfOtherType \<Rightarrow> Some (None, s, w))
      | EventNoneType \<Rightarrow> Some (None, s, w)
      | EventTypeOther _ \<Rightarrow>
          (let (s1, w1) = clearNextExpectedEvent s CompletedAbort w
           in Some (Some ErrUnexpectedMessageType, s1, w1)))"

definition exit :: "collaborators \<Rightarrow> swapState \<Rightarrow> world \<Rightarrow> (error option \<times> swapState \<times> world) option" where
  "exit c s w =
     (case exit_body c s w of
        None \<Rightarrow> None
      | Some (err, s1, w1) \<Rightarrow> Some (err, s1, exit_deferred c s1 w1))"

text \<open>
  \<open>lockFunds\<close>: the balance, then the next expected event, then the transfer; each step
  returns its error at once. The amount is in piconero.
\<close>

definition lockFunds ::
  "collaborators \<Rightarrow> swapState \<Rightarrow> int \<Rightarrow> world \<Rightarrow> error option \<times> swapState \<times> world" where
  "lockFunds c s amount w =
     (let dest = swapDestAddr c s;
          w1 = record_call GetBalance w
      in case GetBalance_err c of
           Some e \<Rightarrow> (Some e, s, w1)
         | None \<Rightarrow>
             (case setNextExpectedEvent c s EventContractReadyType w1 of
                (Some e, s1, w2) \<Rightarrow>
                  (Some (Wrapped ''failed to set next expected event to EventContractReadyType'' e),
                   s1, w2)
              | (None, s1, w2) \<Rightarrow>
                  let w3 = record_call (Transfer dest amount) w2
                  in case Transfer_err c of
                       Some e \<Rightarrow> (Some e, s1, w3)
                     | None \<Rightarrow> (None, s1, w3)))"

section \<open>What a caller can do with a returned Info\<close>

text \<open>
  A caller that holds pointers \<open>cs\<close> to \<open>Info\<close> structs can assign to such a struct or to
  one of its fields (\<open>AssignInfo\<close> carries the new value of the whole struct), and it
  can assign through one of the struct's pointer fields to the decimal or to the
  instant behind it. \<open>through m cs u\<close>: the mutation \<open>u\<close> goes through one of the structs
  at \<open>cs\<close>, as the state \<open>m\<close> has them. \<open>mutate\<close> carries a mutation out.
\<close>

datatype mutation =
    AssignInfo addr Info
  | AssignDecimal dec_ref decimal
  | AssignInstant time_ref instant

fun through :: "manager \<Rightarrow> addr list \<Rightarrow> mutation \<Rightarrow> bool" where
  "through m cs (AssignInfo a v) = (a \<in> set cs)"
| "through m cs (AssignDecimal r v) =
     list_ex (\<lambda>c. r = ProvidedAmount (mem m ! c) \<or> r = ExpectedAmount (mem m ! c) \<or>
                   r = ExchangeRate (mem m ! c)) cs"
| "through m cs (AssignInstant t v) = list_ex (\<lambda>c. EndTime (mem m ! c) = Some t) cs"

fun mutate :: "mutation \<Rightarrow> manager \<Rightarrow> manager" where
  "mutate (AssignInfo a v) m = m\<lparr>mem := (mem m)[a := v]\<rparr>"
| "mutate (AssignDecimal r v) m = m\<lparr>decimals := (decimals m)[r := v]\<rparr>"
| "mutate (AssignInstant t v) m = m\<lparr>times := (times m)[t := v]\<rparr>"

fun is_AssignInfo :: "mutation \<Rightarrow> bool" where
  "is_AssignInfo (AssignInfo a v) = True"
| "is_AssignInfo other = False"

text \<open>
  \<open>structs_intact m m2\<close>: in the state \<open>m2\<close>, every pointer of the maps of the manager
  \<open>m\<close> still refers to a struct with the field values, pointers included, that it has
  in \<open>m\<close>. \<open>seen m p\<close> is the record at \<open>p\<close> as a reader sees it: the struct together
  with the decimals and the end time that its pointers refer to.
  \<open>records_unchanged m m2\<close>: every record of the manager reads in \<open>m2\<close> as it does in
  \<open>m\<close>.
\<close>

definition structs_intact :: "manager \<Rightarrow> manager \<Rightarrow> bool" where
  "structs_intact m m2 =
     list_all (\<lambda>p. snd p < length (mem m2) \<and> mem m2 ! snd p = mem m ! snd p)
       (ongoing m @ past m)"

definition seen :: "manager \<Rightarrow> addr \<Rightarrow> Info \<times> decimal \<times> decimal \<times> decimal \<times> instant option" where
  "seen m p =
     (let i = mem m ! p
      in (i, decimals m ! ProvidedAmount i, decimals m ! ExpectedAmount i,
          decimals m ! ExchangeRate i, map_option (\<lambda>t. times m ! t) (EndTime i)))"

definition records_unchanged :: "manager \<Rightarrow> manager \<Rightarrow> bool" where
  "records_unchanged m m2 =
     list_all (\<lambda>p. seen m2 (snd p) = seen m (snd p)) (ongoing m @ past m)"

section \<open>Predicates of the statements\<close>

text \<open>\<open>is_Transfer\<close>: the call is a Monero transfer.\<close>

fun is_Transfer :: "call \<Rightarrow> bool" where
  "is_Transfer (Transfer dest amount) = True"
| "is_Transfer other = False"

text \<open>
  \<open>claimed_log_for_us\<close>: a log of the Claimed event (its first topic is the topic of
  that event) that is not removed and is for our swap id, that is, \<open>CheckSwapID\<close>
  accepts it. \<open>claimed_log_unchecked\<close>: a log of the Claimed event that is not removed
  and on which \<open>CheckSwapID\<close> fails with an error other than \<open>ErrLogNotForUs\<close>.
\<close>

definition claimed_log_for_us :: "collaborators \<Rightarrow> hash \<Rightarrow> Log \<Rightarrow> bool" where
  "claimed_log_for_us c sid l =
     (case Topics l of
        [] \<Rightarrow> False
      | t # _ \<Rightarrow>
          t = claimedTopic c \<and> \<not> Removed l \<and> CheckSwapID c l (claimedTopic c) sid = None)"

definition claimed_log_unchecked :: "collaborators \<Rightarrow> hash \<Rightarrow> Log \<Rightarrow> bool" where
  "claimed_log_unchecked c sid l =
     (case Topics l of
        [] \<Rightarrow> False
      | t # _ \<Rightarrow>
          t = claimedTopic c \<and> \<not> Removed l \<and>
          (case CheckSwapID c l (claimedTopic c) sid of
             None \<Rightarrow> False
           | Some e \<Rightarrow> \<not> errors_Is e ErrLogNotForUs))"

section \<open>Example states\<close>

definition example_info :: Info where
  "example_info = \<lparr>OfferID = 1, Provides = ProvidesXMR, ProvidedAmount = 0, ExpectedAmount = 1,
     ExchangeRate = 2, EthAsset = 0, Status = XMRLocked,
     MoneroStartHeight = 100, EndTime = None\<rparr>"

definition example_db :: "db_error option \<Rightarrow> Database" where
  "example_db e = \<lparr>stored = [example_info], PutSwap_err = e,
     GetSwap_err = None, GetAllSwaps_err = None\<rparr>"

text \<open>
  Offer 1 is ongoing. The three decimals are the provided amount, the expected amount
  and the exchange rate of the record.
\<close>

definition example_manager :: "db_error option \<Rightarrow> manager" where
  "example_manager e = \<lparr>db = example_db e, ongoing = [(1, 0)], past = [], mem = [example_info],
     times = [], decimals = [1000, 100, 10]\<rparr>"

text \<open>The same manager at the moment a swap ends: the caller has set a terminal status.\<close>

definition completing_manager :: "db_error option \<Rightarrow> manager" where
  "completing_manager e =
     (example_manager e)\<lparr>mem := [example_info\<lparr>Status := CompletedSuccess\<rparr>]\<rparr>"

definition empty_manager :: manager where
  "empty_manager = \<lparr>db = example_db None, ongoing = [], past = [], mem = [example_info],
     times = [], decimals = [1000, 100, 10]\<rparr>"

text \<open>
  An encoding for the calls that the ABI accepts, the sender that the program makes
  with the contract's ABI, and an ABI that names its methods as the sender does.
\<close>

definition example_encoding :: "string \<Rightarrow> abi_arg list \<Rightarrow> bytes" where
  "example_encoding name args = [1, 2, 3]"

definition example_sender :: ExternalSender where
  "example_sender =
     fst (NewExternalSender txsender_init Development
            (Pack SwapCreatorParsedABI example_encoding) 5 6)"

definition snake_case_abi :: ABI where
  "snake_case_abi =
     [(''new_swap'', [TBytes32, TBytes32, TAddress, TUint256, TUint256, TAddress, TUint256,
                      TUint256]),
      (''set_ready'', [TSwap]),
      (''claim'', [TSwap, TBytes32]),
      (''refund'', [TSwap, TBytes32])]"

definition ether_amount :: EthAssetAmount where
  "ether_amount = \<lparr>IsToken = False, TokenAddress = 0, BigInt = 1000, AsStandard = 3\<rparr>"

definition token_amount :: EthAssetAmount where
  "token_amount = \<lparr>IsToken = True, TokenAddress = 9, BigInt = 1000, AsStandard = 3\<rparr>"

text \<open>
  A front end that takes the transaction and never answers, one that never takes it, and
  one that answers after a duration.
\<close>

definition silent_front_end :: front_end where
  "silent_front_end = \<lparr>receives_out = True, hash_after = None, hash_sent = 0,
     tie_takes_hash = False, WaitForReceipt = (\<lambda>h. Some (Inr 1))\<rparr>"

definition absent_front_end :: front_end where
  "absent_front_end = silent_front_end\<lparr>receives_out := False\<rparr>"

definition answering_front_end :: "duration \<Rightarrow> front_end" where
  "answering_front_end d = silent_front_end\<lparr>hash_after := Some d, hash_sent := 77\<rparr>"

definition example_offer :: Offer where
  "example_offer = \<lparr>ID = 1, EthAsset_IsToken = False, EthAsset_Address = 0\<rparr>"

definition example_collaborators :: collaborators where
  "example_collaborators =
     \<lparr>time_Now = 7, Offer_IsSet = (\<lambda>o'. ID o' \<noteq> 0), AddOffer_err = None,
      DeleteOffer_err = None, DeleteSwap_err = None, GetBalance_err = None,
      setNextExpectedEvent_err = (\<lambda>ev. None), Transfer_err = None,
      swapDestAddr = (\<lambda>s. 42), contracts_NewSwapCreator_err = None,
      Backend_NewSwapCreator_err = None,
      Swaps_result = (\<lambda>k. Inr StageReady), FilterLogs_result = (\<lambda>n a. Inr []),
      claimedTopic = 1000,
      CheckSwapID = (\<lambda>l t k. if Topics l = [t, k] then None else Some ErrLogNotForUs),
      NewIERC20_err = None, NewTxSender_err = None, readyWatcher_Start_err = None,
      refundedWatcher_Start_err = None,
      nextExpectedEventFromStatus = (\<lambda>st. if st = XMRLocked then EventContractReadyType
                                             else EventNoneType),
      eventCh_receive = None,
      handleEventETHRefunded = (\<lambda>s w. (None, s, w)),
      handleEventContractReady = (\<lambda>s w. (None, s, w))\<rparr>"

definition example_state :: "EventType \<Rightarrow> swapState" where
  "example_state ev =
     \<lparr>info = 0, offer = example_offer, offerExtra_UseRelayer = False, moneroStartHeight = 100,
      nextExpectedEvent = ev, swapCreatorAddr = 5, contractSwapID = 11, contractSwap = None,
      privkeys = Some 3, pubkeys = Some 3, timeouts = None\<rparr>"

definition example_world :: "Status \<Rightarrow> world" where
  "example_world st =
     \<lparr>swaps = (example_manager None)\<lparr>mem := [example_info\<lparr>Status := st\<rparr>]\<rparr>, calls = []\<rparr>"

definition example_swap_info :: EthereumSwapInfo where
  "example_swap_info = \<lparr>StartNumber = 1, SwapCreatorAddr = 5, SwapID = 11,
     Swap = \<lparr>Timeout0 = 1, Timeout1 = 2\<rparr>\<rparr>"

definition claimed_log :: Log where
  "claimed_log = \<lparr>Topics = [1000, 11], Removed = False, BlockNumber = 3\<rparr>"

text \<open>
  The chain as recovery finds it after our claim: the stage is \<open>Completed\<close>, and the
  filter returns a removed Claimed log and a live one for swap 11.
\<close>

definition claimed_collaborators :: collaborators where
  "claimed_collaborators =
     example_collaborators\<lparr>Swaps_result := (\<lambda>k. Inr StageCompleted),
       FilterLogs_result := (\<lambda>n a. Inr [claimed_log\<lparr>Removed := True\<rparr>, claimed_log])\<rparr>"

text \<open>
  The same chain with one live log that carries the Claimed topic and no second topic.
  \<open>CheckSwapID\<close> is declared outside the three files; here it rejects a log with fewer
  than two topics with an error of its own, and otherwise compares the second topic with
  the swap id.
\<close>

definition short_log :: Log where
  "short_log = \<lparr>Topics = [1000], Removed = False, BlockNumber = 3\<rparr>"

definition unchecked_collaborators :: collaborators where
  "unchecked_collaborators =
     example_collaborators\<lparr>Swaps_result := (\<lambda>k. Inr StageCompleted),
       FilterLogs_result := (\<lambda>n a. Inr [short_log]),
       CheckSwapID := (\<lambda>l t k. if length (Topics l) < 2 then Some (External 9)
                                  else if Topics l = [t, k] then None
                                  else Some ErrLogNotForUs)\<rparr>"

section \<open>Properties of the swap manager\<close>

subsection \<open>Auxiliary facts\<close>

lemma CompleteOngoingSwap_found:
  assumes "p < length (mem m)" and "map_of (ongoing m) (OfferID (mem m ! p)) = Some a"
  shows "CompleteOngoingSwap m p now =
     (map_option DbErr
        (fst (PutSwap (db m) ((mem m ! p)\<lparr>EndTime := Some (length (times m))\<rparr>))),
      m\<lparr>times := times m @ [now],
        mem := (mem m)[p := (mem m ! p)\<lparr>EndTime := Some (length (times m))\<rparr>],
        past := AList.update (OfferID (mem m ! p)) p (past m),
        ongoing := AList.delete (OfferID (mem m ! p)) (ongoing m),
        db := snd (PutSwap (db m) ((mem m ! p)\<lparr>EndTime := Some (length (times m))\<rparr>))\<rparr>)"
  using assms by (simp add: CompleteOngoingSwap_def alloc_def Let_def split: prod.split)

lemma CompleteOngoingSwap_missing:
  assumes "p < length (mem m)" and "map_of (ongoing m) (OfferID (mem m ! p)) = None"
  shows "CompleteOngoingSwap m p now = (Some ErrNoSwapWithID, m)"
  using assms by (simp add: CompleteOngoingSwap_def)

lemma map_of_delete_same: "map_of (AList.delete k al) k = None"
  by (simp add: AList.delete_conv')

lemma map_of_update_same: "map_of (AList.update k v al) k = Some v"
  by (simp add: AList.update_conv')

lemma PutSwap_cases:
  "PutSwap d i = (PutSwap_err d,
                  if PutSwap_err d = None then d\<lparr>stored := put_record i (stored d)\<rparr> else d)"
  by (simp add: PutSwap_def split: option.splits)

lemma copy_all_result:
  assumes "list_all (\<lambda>s. s < length h) ss"
  shows "copy_all h ss = ([length h..<length h + length ss], h @ map (\<lambda>s. h ! s) ss)"
  using assms
proof (induction ss arbitrary: h)
  case Nil
  then show ?case by simp
next
  case (Cons s ss)
  have lt: "list_all (\<lambda>x. x < length (h @ [h ! s])) ss"
    using Cons.prems by (auto simp: list_all_iff)
  have same: "map (\<lambda>x. (h @ [h ! s]) ! x) ss = map (\<lambda>x. h ! x) ss"
    using Cons.prems by (auto simp: list_all_iff nth_append)
  have "[length h..<length h + Suc (length ss)] =
      length h # [Suc (length h)..<length h + Suc (length ss)]"
    by (rule upt_conv_Cons) simp
  then have up: "[length h..<length h + length (s # ss)] =
      length h # [length (h @ [h ! s])..<length (h @ [h ! s]) + length ss]"
    by (simp only: list.size length_append add_Suc_right add_Suc add_0_right One_nat_def)
  have "copy_all h (s # ss) =
      (length h # [length (h @ [h ! s])..<length (h @ [h ! s]) + length ss],
       (h @ [h ! s]) @ map (\<lambda>x. h ! x) ss)"
    using Cons.IH [OF lt] same by (simp add: alloc_def del: upt_Suc)
  then show ?case
    unfolding up by simp
qed

lemma GetOngoingSwaps_result:
  assumes "valid_manager m"
  shows "GetOngoingSwaps m =
     ([length (mem m)..<length (mem m) + length (ongoing m)],
      m\<lparr>mem := mem m @ map (\<lambda>p. mem m ! snd p) (ongoing m)\<rparr>)"
proof -
  have "list_all (\<lambda>s. s < length (mem m)) (map snd (ongoing m))"
    using assms by (simp add: valid_manager_def list_all_iff)
  from copy_all_result [OF this] show ?thesis
    by (simp add: GetOngoingSwaps_def comp_def)
qed

lemma fold_insert_keys:
  "distinct acc \<Longrightarrow>
   distinct (fold (\<lambda>p acc. List.insert (fst p) acc) xs acc) \<and>
   set (fold (\<lambda>p acc. List.insert (fst p) acc) xs acc) = set acc \<union> fst ` set xs"
  by (induction xs arbitrary: acc) auto

lemma fold_insert_not_ongoing:
  "distinct acc \<Longrightarrow>
   distinct (fold (\<lambda>s acc. if IsOngoing (Status s) then acc
                            else List.insert (OfferID s) acc) ss acc) \<and>
   set (fold (\<lambda>s acc. if IsOngoing (Status s) then acc
                       else List.insert (OfferID s) acc) ss acc) =
     set acc \<union> {OfferID s |s. s \<in> set ss \<and> \<not> IsOngoing (Status s)}"
proof (induction ss arbitrary: acc)
  case Nil
  then show ?case by simp
next
  case (Cons s ss)
  show ?case
  proof (cases "IsOngoing (Status s)")
    case True
    with Cons.IH [OF Cons.prems] show ?thesis by auto
  next
    case False
    have d: "distinct (List.insert (OfferID s) acc)"
      using Cons.prems by simp
    from Cons.IH [OF d] False show ?thesis by auto
  qed
qed

lemma GetSwap_key: "GetSwap d k = Inr i \<Longrightarrow> OfferID i = k"
  by (auto simp: GetSwap_def split: option.splits dest: find_Some_iff [THEN iffD1])

subsection \<open>The pointers of the maps stay valid\<close>

text \<open>
  No operation stores a nil pointer: \<open>AddSwap\<close> and \<open>CompleteOngoingSwap\<close> dereference
  \<open>info\<close> before they store it, and the queries store pointers to objects that they
  allocate. So \<open>valid_manager\<close> holds of every manager that the operations reach from
  one with empty maps.
\<close>

lemma set_update_subset: "set (AList.update k v al) \<subseteq> insert (k, v) (set al)"
  by (induction al) auto

lemma set_delete_subset: "set (AList.delete k al) \<subseteq> set al"
  by (induction al) auto

lemma valid_manager_iff:
  "valid_manager m \<longleftrightarrow> (\<forall>p \<in> set (ongoing m) \<union> set (past m). snd p < length (mem m))"
  by (auto simp: valid_manager_def list_all_iff)

lemma valid_manager_AddSwap:
  assumes "valid_manager m"
  shows "valid_manager (snd (AddSwap m p))"
proof (cases "length (mem m) \<le> p")
  case True
  then show ?thesis using assms by (simp add: AddSwap_def)
next
  case False
  then have v: "p < length (mem m)" by simp
  have "snd (AddSwap m p) =
      (if IsOngoing (Status (mem m ! p))
       then m\<lparr>ongoing := AList.update (OfferID (mem m ! p)) p (ongoing m)\<rparr>
       else m\<lparr>past := AList.update (OfferID (mem m ! p)) p (past m)\<rparr>)
      \<lparr>db := snd (PutSwap (db m) (mem m ! p))\<rparr>"
    using v by (simp add: AddSwap_def Let_def split: prod.splits)
  then show ?thesis
    using assms v set_update_subset [of "OfferID (mem m ! p)" p "ongoing m"]
      set_update_subset [of "OfferID (mem m ! p)" p "past m"]
    by (auto simp: valid_manager_iff)
qed

lemma valid_manager_CompleteOngoingSwap:
  assumes "valid_manager m"
  shows "valid_manager (snd (CompleteOngoingSwap m p now))"
proof (cases "p < length (mem m) \<and> map_of (ongoing m) (OfferID (mem m ! p)) \<noteq> None")
  case False
  then show ?thesis
    using assms by (auto simp: CompleteOngoingSwap_def)
next
  case True
  then obtain a where a: "map_of (ongoing m) (OfferID (mem m ! p)) = Some a" and v: "p < length (mem m)"
    by auto
  show ?thesis
    using assms v set_update_subset [of "OfferID (mem m ! p)" p "past m"]
      set_delete_subset [of "OfferID (mem m ! p)" "ongoing m"]
    by (auto simp: CompleteOngoingSwap_found [OF v a] valid_manager_iff)
qed

lemma valid_manager_GetPastSwap:
  assumes "valid_manager m"
  shows "valid_manager (snd (GetPastSwap m k))"
proof (cases "map_of (past m) k = None \<and> (\<exists>i. getSwapFromDB m k = Inr i)")
  case False
  then show ?thesis
    using assms by (auto simp: GetPastSwap_def split: option.splits sum.splits)
next
  case True
  then obtain i where i: "getSwapFromDB m k = Inr i" and n: "map_of (past m) k = None"
    by auto
  have "snd (GetPastSwap m k) =
      m\<lparr>mem := mem m @ [i], past := AList.update (OfferID i) (length (mem m)) (past m)\<rparr>"
    using i n by (simp add: GetPastSwap_def alloc_def)
  then show ?thesis
    using assms set_update_subset [of "OfferID i" "length (mem m)" "past m"]
    by (auto simp: valid_manager_iff less_Suc_eq)
qed

lemma valid_manager_GetOngoingSwaps:
  assumes "valid_manager m"
  shows "valid_manager (snd (GetOngoingSwaps m))"
  using assms
  by (fastforce simp: GetOngoingSwaps_result [OF assms] valid_manager_iff
      intro: trans_less_add1)

subsection \<open>Completing an ongoing swap\<close>

text \<open>
  Claim C1, as the code has it: \<open>CompleteOngoingSwap\<close> stamps the end time (the struct
  gets the address of a new instant that holds \<open>now\<close>), inserts the
  record into \<open>past\<close> and deletes the entry of \<open>ongoing\<close> first, and writes to persistence
  last; the error of the write is the result. So for a record found in \<open>ongoing\<close>, the
  record is absent from \<open>ongoing\<close> and present in \<open>past\<close> afterwards whether or not the
  write succeeds, and when the write fails the database is as before.
\<close>

theorem CompleteOngoingSwap_clears_then_writes:
  assumes "p < length (mem m)"
    and "map_of (ongoing m) (OfferID (mem m ! p)) \<noteq> None"
  shows "(let m' = snd (CompleteOngoingSwap m p now);
              k = OfferID (mem m ! p);
              stamped = (mem m ! p)\<lparr>EndTime := Some (length (times m))\<rparr>
          in map_of (ongoing m') k = None \<and>
             map_of (past m') k = Some p \<and>
             mem m' ! p = stamped \<and>
             times m' = times m @ [now] \<and>
             fst (CompleteOngoingSwap m p now) = map_option DbErr (PutSwap_err (db m)) \<and>
             db m' = (if PutSwap_err (db m) = None
                      then (db m)\<lparr>stored := put_record stamped (stored (db m))\<rparr>
                      else db m))"
proof -
  from assms(2) obtain a where a: "map_of (ongoing m) (OfferID (mem m ! p)) = Some a"
    by auto
  show ?thesis
    using assms(1)
    by (simp add: CompleteOngoingSwap_found [OF assms(1) a] Let_def PutSwap_cases
        map_of_delete_same map_of_update_same)
qed

text \<open>
  The theorem at a manager whose database refuses the write: the error is returned and
  the swap has left \<open>ongoing\<close>.
\<close>

theorem CompleteOngoingSwap_clears_then_writes_witness:
  "0 < length (mem (completing_manager (Some (DbFailure 1)))) \<and>
   map_of (ongoing (completing_manager (Some (DbFailure 1))))
     (OfferID (mem (completing_manager (Some (DbFailure 1))) ! 0)) = Some 0 \<and>
   map_of (ongoing (snd (CompleteOngoingSwap (completing_manager (Some (DbFailure 1))) 0 7))) 1 = None \<and>
   map_of (past (snd (CompleteOngoingSwap (completing_manager (Some (DbFailure 1))) 0 7))) 1 = Some 0 \<and>
   fst (CompleteOngoingSwap (completing_manager (Some (DbFailure 1))) 0 7) = Some (DbErr (DbFailure 1)) \<and>
   db (snd (CompleteOngoingSwap (completing_manager (Some (DbFailure 1))) 0 7)) =
     example_db (Some (DbFailure 1))"
proof -
  have v: "0 < length (mem (completing_manager (Some (DbFailure 1))))"
    by (simp add: completing_manager_def example_manager_def)
  have o: "map_of (ongoing (completing_manager (Some (DbFailure 1))))
     (OfferID (mem (completing_manager (Some (DbFailure 1))) ! 0)) = Some 0"
    by (simp add: completing_manager_def example_manager_def example_info_def)
  then have o': "map_of (ongoing (completing_manager (Some (DbFailure 1))))
     (OfferID (mem (completing_manager (Some (DbFailure 1))) ! 0)) \<noteq> None"
    by simp
  have k: "OfferID (mem (completing_manager (Some (DbFailure 1))) ! 0) = 1"
    "PutSwap_err (db (completing_manager (Some (DbFailure 1)))) = Some (DbFailure 1)"
    "db (completing_manager (Some (DbFailure 1))) = example_db (Some (DbFailure 1))"
    by (simp_all add: completing_manager_def example_manager_def example_info_def example_db_def)
  show ?thesis
    using CompleteOngoingSwap_clears_then_writes [OF v o', of 7] v o k
    by (simp add: Let_def)
qed

text \<open>
  Claim C1 as stated says that the swap is still in \<open>ongoing\<close> when the write fails. Here
  offer 1 is ongoing, the write fails, the database keeps its old record, and offer 1 is
  no longer in \<open>ongoing\<close>.
\<close>

theorem CompleteOngoingSwap_write_failure_counterexample:
  "0 < length (mem (completing_manager (Some (DbFailure 1)))) \<and>
   map_of (ongoing (completing_manager (Some (DbFailure 1)))) 1 = Some 0 \<and>
   fst (CompleteOngoingSwap (completing_manager (Some (DbFailure 1))) 0 7) = Some (DbErr (DbFailure 1)) \<and>
   map_of (ongoing (snd (CompleteOngoingSwap (completing_manager (Some (DbFailure 1))) 0 7))) 1 = None \<and>
   stored (db (snd (CompleteOngoingSwap (completing_manager (Some (DbFailure 1))) 0 7))) = [example_info]"
  by (simp add: CompleteOngoingSwap_def alloc_def PutSwap_def completing_manager_def
      example_manager_def example_db_def example_info_def Let_def)

text \<open>
  Claim C2: for a non-nil \<open>info\<close>, \<open>CompleteOngoingSwap\<close> fails with \<open>errNoSwapWithID\<close>
  exactly when \<open>ongoing\<close> has no entry for the offer id of \<open>info\<close>, and then the manager
  and the heap are as before. Otherwise the end time is stamped on the record, the entry
  leaves \<open>ongoing\<close>, \<open>past\<close> maps the id to \<open>info\<close>, and the stamped record is handed to
  \<open>PutSwap\<close>, whose outcome is the result.
\<close>

theorem CompleteOngoingSwap_contract:
  assumes "p < length (mem m)"
  shows "(fst (CompleteOngoingSwap m p now) = Some ErrNoSwapWithID
            \<longleftrightarrow> map_of (ongoing m) (OfferID (mem m ! p)) = None) \<and>
         (map_of (ongoing m) (OfferID (mem m ! p)) = None
            \<longrightarrow> snd (CompleteOngoingSwap m p now) = m) \<and>
         (map_of (ongoing m) (OfferID (mem m ! p)) \<noteq> None \<longrightarrow>
            (let m' = snd (CompleteOngoingSwap m p now);
                 k = OfferID (mem m ! p);
                 stamped = (mem m ! p)\<lparr>EndTime := Some (length (times m))\<rparr>
             in mem m' = (mem m)[p := stamped] \<and>
                times m' = times m @ [now] \<and>
                EndTime (mem m' ! p) = Some (length (times m)) \<and>
                times m' ! length (times m) = now \<and>
                OfferID (mem m' ! p) = k \<and>
                ongoing m' = AList.delete k (ongoing m) \<and>
                past m' = AList.update k p (past m) \<and>
                map_of (ongoing m') k = None \<and>
                map_of (past m') k = Some p \<and>
                db m' = snd (PutSwap (db m) stamped) \<and>
                fst (CompleteOngoingSwap m p now) =
                  map_option DbErr (fst (PutSwap (db m) stamped))))"
proof (cases "map_of (ongoing m) (OfferID (mem m ! p))")
  case None
  then show ?thesis
    using assms by (simp add: CompleteOngoingSwap_missing)
next
  case (Some a)
  have r: "fst (CompleteOngoingSwap m p now) \<noteq> Some ErrNoSwapWithID"
    by (cases "fst (PutSwap (db m) ((mem m ! p)\<lparr>EndTime := Some (length (times m))\<rparr>))")
       (simp_all add: CompleteOngoingSwap_found [OF assms Some])
  show ?thesis
    using assms Some r
    by (simp add: CompleteOngoingSwap_found [OF assms Some] Let_def
        map_of_delete_same map_of_update_same)
qed

text \<open>
  The theorem at a manager with offer 1 ongoing, where the instant 7 is allocated at
  address 0, and at one without ongoing swaps.
\<close>

theorem CompleteOngoingSwap_contract_witness:
  "0 < length (mem (completing_manager None)) \<and>
   map_of (ongoing (completing_manager None)) (OfferID (mem (completing_manager None) ! 0)) = Some 0 \<and>
   fst (CompleteOngoingSwap (completing_manager None) 0 7) = None \<and>
   map_of (ongoing (snd (CompleteOngoingSwap (completing_manager None) 0 7))) 1 = None \<and>
   map_of (past (snd (CompleteOngoingSwap (completing_manager None) 0 7))) 1 = Some 0 \<and>
   EndTime (mem (snd (CompleteOngoingSwap (completing_manager None) 0 7)) ! 0) = Some 0 \<and>
   times (snd (CompleteOngoingSwap (completing_manager None) 0 7)) = [7] \<and>
   stored (db (snd (CompleteOngoingSwap (completing_manager None) 0 7))) =
     [example_info\<lparr>Status := CompletedSuccess, EndTime := Some 0\<rparr>] \<and>
   0 < length (mem empty_manager) \<and>
   map_of (ongoing empty_manager) (OfferID (mem empty_manager ! 0)) = None \<and>
   fst (CompleteOngoingSwap empty_manager 0 7) = Some ErrNoSwapWithID \<and>
   snd (CompleteOngoingSwap empty_manager 0 7) = empty_manager"
proof -
  have v: "0 < length (mem (completing_manager None))" "0 < length (mem empty_manager)"
    by (simp_all add: completing_manager_def example_manager_def empty_manager_def)
  have o: "map_of (ongoing (completing_manager None)) (OfferID (mem (completing_manager None) ! 0)) = Some 0"
    "map_of (ongoing empty_manager) (OfferID (mem empty_manager ! 0)) = None"
    by (simp_all add: completing_manager_def example_manager_def empty_manager_def example_info_def)
  have p: "PutSwap (db (completing_manager None))
        ((mem (completing_manager None) ! 0)\<lparr>EndTime := Some 0\<rparr>) =
      (None, (example_db None)\<lparr>stored :=
         [example_info\<lparr>Status := CompletedSuccess, EndTime := Some 0\<rparr>]\<rparr>)"
    by (simp add: PutSwap_def put_record_def completing_manager_def example_manager_def example_db_def example_info_def)
  have k: "OfferID (mem (completing_manager None) ! 0) = 1"
    "times (completing_manager None) = []"
    by (simp_all add: completing_manager_def example_manager_def example_info_def)
  show ?thesis
    using CompleteOngoingSwap_contract [OF v(1), of 7] CompleteOngoingSwap_contract [OF v(2), of 7]
      v o p k
    by (simp add: Let_def map_of_delete_same map_of_update_same)
qed

subsection \<open>Queries\<close>

text \<open>
  What the mutations of a caller reach. A caller that got its pointers \<open>cs\<close> from a
  query can only write to the structs at \<open>cs\<close> and to the objects behind their pointer
  fields.
\<close>

lemma fold_mutate_frame:
  assumes "list_all (through m0 cs) us"
  shows "ongoing (fold mutate us m1) = ongoing m1 \<and> past (fold mutate us m1) = past m1 \<and>
         db (fold mutate us m1) = db m1 \<and>
         length (mem (fold mutate us m1)) = length (mem m1) \<and>
         (\<forall>a. a \<notin> set cs \<longrightarrow> mem (fold mutate us m1) ! a = mem m1 ! a) \<and>
         (list_all is_AssignInfo us \<longrightarrow>
            times (fold mutate us m1) = times m1 \<and>
            decimals (fold mutate us m1) = decimals m1)"
  using assms
proof (induction us arbitrary: m1)
  case Nil
  then show ?case by simp
next
  case (Cons u us)
  have t: "through m0 cs u" and r: "list_all (through m0 cs) us"
    using Cons.prems by simp_all
  note ih = Cons.IH [OF r, of "mutate u m1"]
  show ?case
  proof (cases u)
    case (AssignInfo a v)
    then have "a \<in> set cs" using t by simp
    then have "(mem m1)[a := v] ! b = mem m1 ! b" if "b \<notin> set cs" for b
      using that by (metis nth_list_update_neq)
    then show ?thesis
      using ih AssignInfo by simp
  next
    case (AssignDecimal r' v)
    then show ?thesis using ih by simp
  next
    case (AssignInstant t' v)
    then show ?thesis using ih by simp
  qed
qed

lemma copies_leave_records:
  assumes v: "valid_manager m"
    and eq: "ongoing m1 = ongoing m" "past m1 = past m" "db m1 = db m"
      "times m1 = times m" "decimals m1 = decimals m"
    and len: "length (mem m) \<le> length (mem m1)"
    and same: "\<forall>a < length (mem m). mem m1 ! a = mem m ! a"
    and fresh: "\<forall>c \<in> set cs. length (mem m) \<le> c"
    and us: "list_all (through m0 cs) us"
  shows "structs_intact m (fold mutate us m1) \<and>
         (list_all is_AssignInfo us \<longrightarrow> records_unchanged m (fold mutate us m1))"
proof -
  note f = fold_mutate_frame [OF us, of m1]
  have cell: "snd p < length (mem (fold mutate us m1)) \<and>
      mem (fold mutate us m1) ! snd p = mem m ! snd p"
    if "p \<in> set (ongoing m @ past m)" for p
  proof -
    have lt: "snd p < length (mem m)"
      using that v by (auto simp: valid_manager_def list_all_iff)
    then have "snd p \<notin> set cs" using fresh by auto
    then show ?thesis using f lt len same by auto
  qed
  have a: "structs_intact m (fold mutate us m1)"
    unfolding structs_intact_def list_all_iff using cell by blast
  have b: "records_unchanged m (fold mutate us m1)" if "list_all is_AssignInfo us"
    unfolding records_unchanged_def list_all_iff
  proof
    fix p assume "p \<in> set (ongoing m @ past m)"
    then show "seen (fold mutate us m1) (snd p) = seen m (snd p)"
      using cell [of p] f that eq by (simp add: seen_def)
  qed
  show ?thesis using a b by blast
qed

text \<open>
  Claim C7, as the code has it: \<open>GetOngoingSwap\<close> returns the stored struct by value and
  \<open>GetOngoingSwaps\<close> returns pointers to new structs to which the stored structs have
  been assigned, so every returned \<open>Info\<close> holds the field values of the stored one, its
  pointers included. Whatever the caller does through a returned \<open>Info\<close>, the structs
  that the manager's maps point to keep their field values; and when the caller only
  assigns to the returned structs or to their fields, every record of the manager
  reads as before. The decimals and the end time behind the pointer fields are not
  copied: the returned \<open>Info\<close> and the stored one share them.
\<close>

theorem ongoing_queries_return_shallow_copies:
  assumes "valid_manager m"
  shows "(\<forall>k v c h0 us. GetOngoingSwap m k = Inr v \<longrightarrow> alloc (mem m) v = (c, h0) \<longrightarrow>
            list_all (through (m\<lparr>mem := h0\<rparr>) [c]) us \<longrightarrow>
            (\<exists>s. map_of (ongoing m) k = Some s \<and> v = mem m ! s) \<and>
            structs_intact m (fold mutate us (m\<lparr>mem := h0\<rparr>)) \<and>
            (list_all is_AssignInfo us \<longrightarrow>
               records_unchanged m (fold mutate us (m\<lparr>mem := h0\<rparr>)))) \<and>
         (\<forall>swaps m' us. GetOngoingSwaps m = (swaps, m') \<longrightarrow>
            list_all (through m' swaps) us \<longrightarrow>
            ongoing m' = ongoing m \<and> past m' = past m \<and> db m' = db m \<and>
            times m' = times m \<and> decimals m' = decimals m \<and>
            map (\<lambda>c. mem m' ! c) swaps = map (\<lambda>p. mem m ! snd p) (ongoing m) \<and>
            structs_intact m (fold mutate us m') \<and>
            (list_all is_AssignInfo us \<longrightarrow> records_unchanged m (fold mutate us m')))"
proof (intro conjI allI impI)
  fix k v c h0 us
  assume g: "GetOngoingSwap m k = Inr v" and a: "alloc (mem m) v = (c, h0)"
    and us: "list_all (through (m\<lparr>mem := h0\<rparr>) [c]) us"
  show "\<exists>s. map_of (ongoing m) k = Some s \<and> v = mem m ! s"
    using g by (auto simp: GetOngoingSwap_def split: option.splits)
  have c: "c = length (mem m)" and h0: "h0 = mem m @ [v]"
    using a by (auto simp: alloc_def)
  note r = copies_leave_records [OF assms, where ?m1.0 = "m\<lparr>mem := h0\<rparr>" and cs = "[c]", OF _ _ _ _ _ _ _ _ us]
  have r': "structs_intact m (fold mutate us (m\<lparr>mem := h0\<rparr>)) \<and>
      (list_all is_AssignInfo us \<longrightarrow> records_unchanged m (fold mutate us (m\<lparr>mem := h0\<rparr>)))"
    by (rule r) (simp_all add: c h0 nth_append)
  show "structs_intact m (fold mutate us (m\<lparr>mem := h0\<rparr>))"
    using r' by blast
  assume "list_all is_AssignInfo us"
  then show "records_unchanged m (fold mutate us (m\<lparr>mem := h0\<rparr>))"
    using r' by blast
next
  fix swaps m' us
  assume g: "GetOngoingSwaps m = (swaps, m')" and us: "list_all (through m' swaps) us"
  have sw: "swaps = [length (mem m)..<length (mem m) + length (ongoing m)]"
    and m': "m' = m\<lparr>mem := mem m @ map (\<lambda>p. mem m ! snd p) (ongoing m)\<rparr>"
    using g GetOngoingSwaps_result [OF assms] by simp_all
  show "ongoing m' = ongoing m" "past m' = past m" "db m' = db m"
    "times m' = times m" "decimals m' = decimals m"
    using m' by simp_all
  show "map (\<lambda>c. mem m' ! c) swaps = map (\<lambda>p. mem m ! snd p) (ongoing m)"
    unfolding sw m' by (rule nth_equalityI) (simp_all add: nth_append)
  note r = copies_leave_records [OF assms, where ?m1.0 = m' and cs = swaps, OF _ _ _ _ _ _ _ _ us]
  have r': "structs_intact m (fold mutate us m') \<and>
      (list_all is_AssignInfo us \<longrightarrow> records_unchanged m (fold mutate us m'))"
    by (rule r) (simp_all add: sw m' nth_append)
  show "structs_intact m (fold mutate us m')"
    using r' by blast
  assume "list_all is_AssignInfo us"
  then show "records_unchanged m (fold mutate us m')"
    using r' by blast
qed

text \<open>
  The theorem at a manager with one ongoing swap. The caller overwrites the status and
  the amount pointer of the copy: the stored record reads as before. The caller
  assigns to the decimal behind the amount pointer of the copy: the stored struct
  keeps its fields.
\<close>

theorem ongoing_queries_return_shallow_copies_witness:
  "valid_manager (example_manager None) \<and>
   GetOngoingSwaps (example_manager None) =
     ([1], (example_manager None)\<lparr>mem := [example_info, example_info]\<rparr>) \<and>
   list_all (through ((example_manager None)\<lparr>mem := [example_info, example_info]\<rparr>) [1])
     [AssignInfo 1 (example_info\<lparr>Status := CompletedAbort, ProvidedAmount := 2\<rparr>)] \<and>
   list_all is_AssignInfo
     [AssignInfo 1 (example_info\<lparr>Status := CompletedAbort, ProvidedAmount := 2\<rparr>)] \<and>
   records_unchanged (example_manager None)
     (fold mutate [AssignInfo 1 (example_info\<lparr>Status := CompletedAbort, ProvidedAmount := 2\<rparr>)]
        ((example_manager None)\<lparr>mem := [example_info, example_info]\<rparr>)) \<and>
   list_all (through ((example_manager None)\<lparr>mem := [example_info, example_info]\<rparr>) [1])
     [AssignDecimal 0 5] \<and>
   structs_intact (example_manager None)
     (fold mutate [AssignDecimal 0 5]
        ((example_manager None)\<lparr>mem := [example_info, example_info]\<rparr>)) \<and>
   GetOngoingSwap (example_manager None) 1 = Inr example_info \<and>
   alloc (mem (example_manager None)) example_info = (1, [example_info, example_info])"
proof -
  let ?m' = "(example_manager None)\<lparr>mem := [example_info, example_info]\<rparr>"
  let ?u = "AssignInfo 1 (example_info\<lparr>Status := CompletedAbort, ProvidedAmount := 2\<rparr>)"
  have v: "valid_manager (example_manager None)"
    by (simp add: valid_manager_def example_manager_def)
  have g: "GetOngoingSwaps (example_manager None) = ([1], ?m')"
    by (simp add: GetOngoingSwaps_def alloc_def example_manager_def)
  have t1: "list_all (through ?m' [1]) [?u]" and a1: "list_all is_AssignInfo [?u]"
    by simp_all
  have t2: "list_all (through ?m' [1]) [AssignDecimal 0 5]"
    by (simp add: example_info_def)
  have g1: "GetOngoingSwap (example_manager None) 1 = Inr example_info"
    by (simp add: GetOngoingSwap_def example_manager_def)
  have al: "alloc (mem (example_manager None)) example_info = (1, [example_info, example_info])"
    by (simp add: alloc_def example_manager_def)
  from ongoing_queries_return_shallow_copies [OF v] g t1 a1
  have r1: "records_unchanged (example_manager None) (fold mutate [?u] ?m')"
    by blast
  from ongoing_queries_return_shallow_copies [OF v] g t2
  have r2: "structs_intact (example_manager None) (fold mutate [AssignDecimal 0 5] ?m')"
    by blast
  show ?thesis
    using v g t1 a1 r1 t2 r2 g1 al by simp
qed

text \<open>
  Claim C7 as stated says that any mutation on a returned \<open>Info\<close> leaves the stored
  record unchanged. Here the copy that \<open>GetOngoingSwaps\<close> returns for offer 1 holds the
  same pointer to the provided amount as the stored struct; the caller sets the decimal
  behind it to 5, and the stored record, which read 1000, reads 5.
\<close>

theorem returned_copy_shares_decimals_counterexample:
  "valid_manager (example_manager None) \<and>
   map_of (ongoing (example_manager None)) 1 = Some 0 \<and>
   fst (GetOngoingSwaps (example_manager None)) = [1] \<and>
   ProvidedAmount (mem (snd (GetOngoingSwaps (example_manager None))) ! 1) = 0 \<and>
   through (snd (GetOngoingSwaps (example_manager None))) [1] (AssignDecimal 0 5) \<and>
   seen (example_manager None) 0 = (example_info, 1000, 100, 10, None) \<and>
   seen (mutate (AssignDecimal 0 5) (snd (GetOngoingSwaps (example_manager None)))) 0 =
     (example_info, 5, 100, 10, None) \<and>
   \<not> records_unchanged (example_manager None)
       (mutate (AssignDecimal 0 5) (snd (GetOngoingSwaps (example_manager None))))"
  by (simp add: valid_manager_def GetOngoingSwaps_def alloc_def seen_def records_unchanged_def
      example_manager_def example_info_def)

text \<open>
  Claim C8: when the database returns its records, \<open>GetPastIDs\<close> returns a list without
  duplicates whose elements are exactly the keys of \<open>past\<close> and the offer ids of the
  returned records whose status is not ongoing. When the database fails, its error is
  the result.
\<close>

theorem GetPastIDs_union:
  "case GetAllSwaps (db m) of
     Inl e \<Rightarrow> GetPastIDs m = Inl (DbErr e)
   | Inr ss \<Rightarrow>
       (\<exists>ids. GetPastIDs m = Inr ids \<and> distinct ids \<and>
          set ids = fst ` set (past m) \<union>
                    {OfferID s |s. s \<in> set ss \<and> \<not> IsOngoing (Status s)})"
proof (cases "GetAllSwaps (db m)")
  case (Inl e)
  then show ?thesis by (simp add: GetPastIDs_def)
next
  case (Inr ss)
  have k: "distinct (fold (\<lambda>p acc. List.insert (fst p) acc) (past m) []) \<and>
      set (fold (\<lambda>p acc. List.insert (fst p) acc) (past m) []) = fst ` set (past m)"
    using fold_insert_keys [of "[]" "past m"] by simp
  from fold_insert_not_ongoing [of _ ss] k Inr show ?thesis
    by (simp add: GetPastIDs_def)
qed

text \<open>
  The theorem at a manager whose only record is ongoing (no past id), and at the same
  manager after the swap has been completed (one past id).
\<close>

theorem GetPastIDs_union_witness:
  "GetAllSwaps (db (example_manager None)) = Inr [example_info] \<and>
   GetPastIDs (example_manager None) = Inr [] \<and>
   GetAllSwaps (db (snd (CompleteOngoingSwap
      ((example_manager None)\<lparr>mem := [example_info\<lparr>Status := CompletedSuccess\<rparr>]\<rparr>) 0 7))) =
     Inr [example_info\<lparr>Status := CompletedSuccess, EndTime := Some 0\<rparr>] \<and>
   GetPastIDs (snd (CompleteOngoingSwap
      ((example_manager None)\<lparr>mem := [example_info\<lparr>Status := CompletedSuccess\<rparr>]\<rparr>) 0 7)) = Inr [1]"
  using GetPastIDs_union [of "example_manager None"]
    GetPastIDs_union [of "snd (CompleteOngoingSwap
      ((example_manager None)\<lparr>mem := [example_info\<lparr>Status := CompletedSuccess\<rparr>]\<rparr>) 0 7)"]
  by (simp add: GetPastIDs_def GetAllSwaps_def CompleteOngoingSwap_def alloc_def PutSwap_def
      put_record_def
      example_manager_def example_db_def example_info_def Let_def)

text \<open>
  Claim C9: for an id that \<open>past\<close> does not hold and for which the database returns a
  record, \<open>GetPastSwap\<close> returns a pointer to that record and caches it in \<open>past\<close> under
  the id. Nothing in the statement depends on the status of the record: \<open>GetPastSwap\<close>
  never reads it.
\<close>

theorem GetPastSwap_ignores_status:
  assumes "map_of (past m) k = None" and "GetSwap (db m) k = Inr i"
  shows "OfferID i = k \<and>
         GetPastSwap m k =
           (Inr (length (mem m)),
            m\<lparr>mem := mem m @ [i], past := AList.update k (length (mem m)) (past m)\<rparr>) \<and>
         mem (snd (GetPastSwap m k)) ! length (mem m) = i \<and>
         map_of (past (snd (GetPastSwap m k))) k = Some (length (mem m))"
proof -
  have k: "OfferID i = k" using assms(2) by (rule GetSwap_key)
  have r: "GetPastSwap m k =
      (Inr (length (mem m)),
       m\<lparr>mem := mem m @ [i], past := AList.update k (length (mem m)) (past m)\<rparr>)"
    using assms k by (simp add: GetPastSwap_def getSwapFromDB_def alloc_def)
  show ?thesis
    using k r by (simp add: AList.update_conv')
qed

text \<open>
  The theorem at a manager whose offer 1 is ongoing (status \<open>XMRLocked\<close>, held by
  \<open>ongoing\<close>): the query for the past swap 1 returns the record instead of
  \<open>errNoSwapWithID\<close>, and \<open>past\<close> holds it afterwards.
\<close>

theorem GetPastSwap_ignores_status_witness:
  "map_of (past (example_manager None)) 1 = None \<and>
   GetSwap (db (example_manager None)) 1 = Inr example_info \<and>
   IsOngoing (Status example_info) \<and>
   map_of (ongoing (example_manager None)) 1 = Some 0 \<and>
   fst (GetPastSwap (example_manager None) 1) = Inr 1 \<and>
   mem (snd (GetPastSwap (example_manager None) 1)) ! 1 = example_info \<and>
   map_of (past (snd (GetPastSwap (example_manager None) 1))) 1 = Some 1"
proof -
  have p: "map_of (past (example_manager None)) 1 = None"
    by (simp add: example_manager_def)
  have g: "GetSwap (db (example_manager None)) 1 = Inr example_info"
    by (simp add: GetSwap_def example_manager_def example_db_def example_info_def)
  have l: "length (mem (example_manager None)) = 1"
    by (simp add: example_manager_def)
  have o: "IsOngoing (Status example_info)" "map_of (ongoing (example_manager None)) 1 = Some 0"
    by (simp_all add: example_info_def example_manager_def)
  show ?thesis
    using GetPastSwap_ignores_status [OF p g] p g o l
    by (simp add: map_of_update_same nth_append)
qed

section \<open>Properties of the external sender\<close>

subsection \<open>Packing the call of \<open>NewSwap\<close>\<close>

lemma Pack_unknown_method:
  "map_of abi name = None \<Longrightarrow> Pack abi encode name args = Inl (ErrAbiMethodNotFound name)"
  by (simp add: Pack_def)

lemma Pack_argument_count:
  "map_of abi name = Some inputs \<Longrightarrow> length args \<noteq> length inputs \<Longrightarrow>
   Pack abi encode name args = Inl (ErrAbiArgumentCount (length args) (length inputs))"
  by (simp add: Pack_def)

text \<open>
  Claim C6, where the code departs from it. The token part holds: for a token amount
  \<open>NewSwap\<close> returns the error "external sender does not support ERC20 token swaps" and
  sends nothing. For every other amount \<open>NewSwap\<close> packs a call \<open>new_swap\<close> with seven
  arguments, and the contract's method takes eight (two timeout durations, where
  \<open>NewSwap\<close> passes one): whether the ABI has no method of that name or has it with its
  eight inputs, \<open>Pack\<close> fails, \<open>NewSwap\<close> returns that error, and nothing is sent to the
  front end. So \<open>NewSwap\<close> neither prompts the front end nor waits for a hash, and it
  never returns \<open>errTransactionTimeout\<close>, whatever the front end does.
\<close>

theorem NewSwap_pack_fails:
  assumes "abi_Pack s = Pack abi encode"
    and "map_of abi ''new_swap'' = None \<or>
         (\<exists>inputs. map_of abi ''new_swap'' = Some inputs \<and> length inputs = 8)"
  shows "(IsToken amount \<longrightarrow>
            NewSwap g s fe pubKeyClaim pubKeyRefund claimer timeoutDuration nonce amount =
              (Some (Inl ErrERC20Unsupported), [])) \<and>
         (\<not> IsToken amount \<longrightarrow>
            NewSwap g s fe pubKeyClaim pubKeyRefund claimer timeoutDuration nonce amount =
              (Some (Inl (case map_of abi ''new_swap'' of
                            None \<Rightarrow> ErrAbiMethodNotFound ''new_swap''
                          | Some inputs \<Rightarrow> ErrAbiArgumentCount 7 8)), []) \<and>
            fst (NewSwap g s fe pubKeyClaim pubKeyRefund claimer timeoutDuration nonce amount)
              \<noteq> Some (Inl ErrTransactionTimeout))"
proof (cases "map_of abi ''new_swap''")
  case None
  then show ?thesis
    using assms(1) by (simp add: NewSwap_def Pack_def)
next
  case (Some inputs)
  then have "length inputs = 8" using assms(2) by auto
  then show ?thesis
    using assms(1) Some by (simp add: NewSwap_def Pack_def)
qed

text \<open>
  The theorem at the sender that the program makes, with a front end that receives the
  transaction and never sends a hash, and with one that would answer within a minute;
  at the same sender with an ABI that names the method \<open>new_swap\<close>; and at a token
  amount.
\<close>

theorem NewSwap_pack_fails_witness:
  "abi_Pack example_sender = Pack SwapCreatorParsedABI example_encoding \<and>
   map_of SwapCreatorParsedABI ''new_swap'' = None \<and>
   \<not> IsToken ether_amount \<and>
   hash_after silent_front_end = None \<and>
   NewSwap txsender_init example_sender silent_front_end 1 2 3 4 5 ether_amount =
     (Some (Inl (ErrAbiMethodNotFound ''new_swap'')), []) \<and>
   NewSwap txsender_init example_sender (answering_front_end Minute) 1 2 3 4 5 ether_amount =
     (Some (Inl (ErrAbiMethodNotFound ''new_swap'')), []) \<and>
   map_of snake_case_abi ''new_swap'' =
     Some [TBytes32, TBytes32, TAddress, TUint256, TUint256, TAddress, TUint256, TUint256] \<and>
   NewSwap txsender_init (example_sender\<lparr>abi_Pack := Pack snake_case_abi example_encoding\<rparr>)
     silent_front_end 1 2 3 4 5 ether_amount =
     (Some (Inl (ErrAbiArgumentCount 7 8)), []) \<and>
   IsToken token_amount \<and>
   NewSwap txsender_init example_sender silent_front_end 1 2 3 4 5 token_amount =
     (Some (Inl ErrERC20Unsupported), [])"
proof -
  have p1: "abi_Pack example_sender = Pack SwapCreatorParsedABI example_encoding"
    by (simp add: example_sender_def NewExternalSender_def)
  have p2: "abi_Pack (example_sender\<lparr>abi_Pack := Pack snake_case_abi example_encoding\<rparr>) =
      Pack snake_case_abi example_encoding"
    by simp
  have m1: "map_of SwapCreatorParsedABI ''new_swap'' = None"
    by (simp add: SwapCreatorParsedABI_def)
  have m2: "map_of snake_case_abi ''new_swap'' =
      Some [TBytes32, TBytes32, TAddress, TUint256, TUint256, TAddress, TUint256, TUint256]"
    by (simp add: snake_case_abi_def)
  have h1: "map_of SwapCreatorParsedABI ''new_swap'' = None \<or>
      (\<exists>inputs. map_of SwapCreatorParsedABI ''new_swap'' = Some inputs \<and> length inputs = 8)"
    using m1 by simp
  have h2: "map_of snake_case_abi ''new_swap'' = None \<or>
      (\<exists>inputs. map_of snake_case_abi ''new_swap'' = Some inputs \<and> length inputs = 8)"
    using m2 by simp
  have t: "\<not> IsToken ether_amount" "IsToken token_amount" "hash_after silent_front_end = None"
    by (simp_all add: ether_amount_def token_amount_def silent_front_end_def)
  note a = NewSwap_pack_fails [OF p1 h1, where amount = ether_amount and g = txsender_init
      and fe = silent_front_end and pubKeyClaim = 1 and pubKeyRefund = 2 and claimer = 3
      and timeoutDuration = 4 and nonce = 5]
  note b = NewSwap_pack_fails [OF p1 h1, where amount = ether_amount and g = txsender_init
      and fe = "answering_front_end Minute" and pubKeyClaim = 1 and pubKeyRefund = 2
      and claimer = 3 and timeoutDuration = 4 and nonce = 5]
  note c = NewSwap_pack_fails [OF p2 h2, where amount = ether_amount and g = txsender_init
      and fe = silent_front_end and pubKeyClaim = 1 and pubKeyRefund = 2 and claimer = 3
      and timeoutDuration = 4 and nonce = 5]
  note d = NewSwap_pack_fails [OF p1 h1, where amount = token_amount and g = txsender_init
      and fe = silent_front_end and pubKeyClaim = 1 and pubKeyRefund = 2 and claimer = 3
      and timeoutDuration = 4 and nonce = 5]
  show ?thesis
    using a b c d p1 m1 m2 t by simp
qed

subsection \<open>The timeout of the package\<close>

text \<open>
  Claim C10: \<open>NewExternalSender\<close> for Mainnet or Stagenet sets the package's
  \<open>transactionTimeout\<close> to one hour and leaves it unchanged for every other
  environment; the sender it returns has no timeout of its own. So after a sender for
  Mainnet has been made, every round trip, whichever sender makes it and whichever
  senders are made for other environments afterwards, waits one hour.
\<close>

theorem transactionTimeout_is_shared:
  "transactionTimeout (snd (NewExternalSender g env parsedABI a b)) =
     (if env = Mainnet \<or> env = Stagenet then Hour else transactionTimeout g) \<and>
   (env \<noteq> Mainnet \<and> env \<noteq> Stagenet \<longrightarrow> snd (NewExternalSender g env parsedABI a b) = g) \<and>
   fst (NewExternalSender g env parsedABI a b) =
     \<lparr>abi_Pack = parsedABI, contractAddr = a, erc20Addr = b\<rparr> \<and>
   (let (s1, g1) = NewExternalSender g env1 abi1 a1 b1;
        (s2, g2) = NewExternalSender g1 Mainnet abi2 a2 b2;
        (s3, g3) = NewExternalSender g2 Development abi3 a3 b3
    in transactionTimeout g2 = Hour \<and> g3 = g2 \<and>
       sign_round_trip g3 fe tx =
         (if \<not> receives_out fe then (None, [tx])
          else if (\<exists>d. hash_after fe = Some d \<and> (d < Hour \<or> d = Hour \<and> tie_takes_hash fe))
          then (WaitForReceipt fe (hash_sent fe), [tx])
          else (Some (Inl ErrTransactionTimeout), [tx])))"
  by (cases env) (auto simp: NewExternalSender_def sign_round_trip_def Let_def split: option.splits)

text \<open>
  The theorem at a sender made for Development: alone, its round trip times out after
  two minutes; once a sender for Mainnet exists, the same round trip accepts a hash
  after three.
\<close>

theorem transactionTimeout_is_shared_witness:
  "example_sender =
     fst (NewExternalSender txsender_init Development 
       (Pack SwapCreatorParsedABI example_encoding) 5 6) \<and>
   snd (NewExternalSender txsender_init Development 
       (Pack SwapCreatorParsedABI example_encoding) 5 6) = txsender_init \<and>
   transactionTimeout txsender_init = 120000000000 \<and>
   transactionTimeout (snd (NewExternalSender txsender_init Mainnet 
       (Pack SwapCreatorParsedABI example_encoding) 7 8)) =
     3600000000000 \<and>
   snd (NewExternalSender (snd (NewExternalSender txsender_init Mainnet 
       (Pack SwapCreatorParsedABI example_encoding) 7 8))
          Development 
       (Pack SwapCreatorParsedABI example_encoding) 5 6) =
     snd (NewExternalSender txsender_init Mainnet 
       (Pack SwapCreatorParsedABI example_encoding) 7 8) \<and>
   fst (sendAndReceive txsender_init (answering_front_end (3 * Minute)) [1, 2, 3]
          (contractAddr example_sender)) = Some (Inl ErrTransactionTimeout) \<and>
   fst (sendAndReceive (snd (NewExternalSender txsender_init Mainnet 
       (Pack SwapCreatorParsedABI example_encoding) 7 8))
          (answering_front_end (3 * Minute)) [1, 2, 3] (contractAddr example_sender)) =
     Some (Inr 1)"
  using transactionTimeout_is_shared [where g = txsender_init and env = Development
      and parsedABI = "Pack SwapCreatorParsedABI example_encoding" and a = 5 and b = 6]
    transactionTimeout_is_shared [where g = txsender_init and env = Mainnet
      and parsedABI = "Pack SwapCreatorParsedABI example_encoding" and a = 7 and b = 8]
    transactionTimeout_is_shared
      [where g = "snd (NewExternalSender txsender_init Mainnet 
       (Pack SwapCreatorParsedABI example_encoding) 7 8)"
       and env = Development and parsedABI = "Pack SwapCreatorParsedABI example_encoding" and a = 5 and b = 6]
  by (simp add: sendAndReceive_def sign_round_trip_def NewExternalSender_def txsender_init_def
      example_sender_def answering_front_end_def silent_front_end_def Minute_def Hour_def)
section \<open>Properties of the maker's swap state\<close>

subsection \<open>Auxiliary facts\<close>

lemma CompleteOngoingSwap_Status:
  "p < length (mem m) \<Longrightarrow>
   Status (mem (snd (CompleteOngoingSwap m p now)) ! p) = Status (mem m ! p)"
  by (simp add: CompleteOngoingSwap_def Let_def split: option.splits prod.splits)

lemma exit_deferred_failed:
  assumes "fst (CompleteOngoingSwap (swaps w) (info s) (time_Now c)) = Some e"
  shows "calls (exit_deferred c s w) =
           calls w @ [CloseProtocolStream (OfferID (mem (swaps w) ! info s))]"
proof -
  obtain m where r: "CompleteOngoingSwap (swaps w) (info s) (time_Now c) = (Some e, m)"
    using assms by (cases "CompleteOngoingSwap (swaps w) (info s) (time_Now c)") simp
  show ?thesis
    using r by (simp add: exit_deferred_def record_call_def Let_def)
qed

lemma exit_deferred_completed:
  assumes "info s < length (mem (swaps w))"
    and "fst (CompleteOngoingSwap (swaps w) (info s) (time_Now c)) = None"
  shows "calls (exit_deferred c s w) =
           calls w @ [CloseProtocolStream (OfferID (mem (swaps w) ! info s))] @
           (if Status (mem (swaps w) ! info s) = CompletedSuccess
            then [DeleteOffer (ID (offer s))]
            else if Offer_IsSet c (offer s)
            then [AddOffer (offer s) (offerExtra_UseRelayer s)]
            else []) @
           [RecoveryDB_DeleteSwap (ID (offer s)), CancelSwapContext, CloseDone]"
proof -
  obtain m where r: "CompleteOngoingSwap (swaps w) (info s) (time_Now c) = (None, m)"
    using assms(2) by (cases "CompleteOngoingSwap (swaps w) (info s) (time_Now c)") simp
  have st: "Status (mem m ! info s) = Status (mem (swaps w) ! info s)"
    using CompleteOngoingSwap_Status [OF assms(1), of "time_Now c"] r by simp
  show ?thesis
    using r st by (simp add: exit_deferred_def record_call_def Let_def)
qed

lemma claimed_log_found_Cons:
  "Topics l \<noteq> [] \<Longrightarrow>
   claimed_log_found c sid (l # ls) =
     (if claimed_log_for_us c sid l \<or> claimed_log_unchecked c sid l then Inr True
      else claimed_log_found c sid ls)"
  by (cases "Topics l")
     (auto simp: claimed_log_for_us_def claimed_log_unchecked_def split: option.splits)

lemma claimed_log_found_wellformed:
  "list_all (\<lambda>l. Topics l \<noteq> []) logs \<Longrightarrow>
   claimed_log_found c sid logs =
     Inr (list_ex (\<lambda>l. claimed_log_for_us c sid l \<or> claimed_log_unchecked c sid l) logs)"
proof (induction logs)
  case Nil
  show ?case by simp
next
  case (Cons l ls)
  then have t: "Topics l \<noteq> []" and r: "list_all (\<lambda>l. Topics l \<noteq> []) ls"
    by simp_all
  show ?case
    using Cons.IH [OF r] by (simp add: claimed_log_found_Cons [OF t] del: claimed_log_found.simps)
qed

lemma claimed_log_found_True:
  "claimed_log_found c sid logs = Inr True \<Longrightarrow>
   list_ex (\<lambda>l. claimed_log_for_us c sid l \<or> claimed_log_unchecked c sid l) logs"
proof (induction logs)
  case Nil
  then show ?case by simp
next
  case (Cons l ls)
  have t: "Topics l \<noteq> []"
    using Cons.prems by (cases "Topics l") simp_all
  show ?case
    using Cons.prems Cons.IH
    by (auto simp: claimed_log_found_Cons [OF t] simp del: claimed_log_found.simps
        split: if_splits)
qed

lemma checkIfAlreadyClaimed_True:
  "checkIfAlreadyClaimed c e = Inr True \<longleftrightarrow>
     contracts_NewSwapCreator_err c = None \<and> Swaps_result c (SwapID e) = Inr StageCompleted \<and>
     (\<exists>logs. FilterLogs_result c (StartNumber e) (SwapCreatorAddr e) = Inr logs \<and>
             claimed_log_found c (SwapID e) logs = Inr True)"
  by (auto simp: checkIfAlreadyClaimed_def split: option.splits sum.splits Stage.splits)

lemma SetStatus_simps:
  "mem (swaps (SetStatus w p st)) = (mem (swaps w))[p := (mem (swaps w) ! p)\<lparr>Status := st\<rparr>]"
  "ongoing (swaps (SetStatus w p st)) = ongoing (swaps w)"
  "past (swaps (SetStatus w p st)) = past (swaps w)"
  "db (swaps (SetStatus w p st)) = db (swaps w)"
  "times (swaps (SetStatus w p st)) = times (swaps w)"
  "decimals (swaps (SetStatus w p st)) = decimals (swaps w)"
  "calls (SetStatus w p st) = calls w"
  by (simp_all add: SetStatus_def)

lemma completeSwap_swaps:
  assumes "p < length (mem (swaps w))"
  shows "swaps (snd (completeSwap c p w)) =
           snd (CompleteOngoingSwap (swaps (SetStatus w p CompletedSuccess)) p (time_Now c))"
  using assms
  by (simp add: completeSwap_def Let_def record_call_def split: prod.splits option.splits)

lemma completeSwap_completes:
  assumes "p < length (mem (swaps w))"
  shows "Status (mem (swaps (snd (completeSwap c p w))) ! p) = CompletedSuccess \<and>
         (map_of (ongoing (swaps w)) (OfferID (mem (swaps w) ! p)) \<noteq> None \<longrightarrow>
            map_of (ongoing (swaps (snd (completeSwap c p w)))) (OfferID (mem (swaps w) ! p)) = None \<and>
            map_of (past (swaps (snd (completeSwap c p w)))) (OfferID (mem (swaps w) ! p)) = Some p \<and>
            EndTime (mem (swaps (snd (completeSwap c p w))) ! p) =
              Some (length (times (swaps w))) \<and>
            times (swaps (snd (completeSwap c p w))) = times (swaps w) @ [time_Now c])"
proof -
  let ?w1 = "SetStatus w p CompletedSuccess"
  have v: "p < length (mem (swaps ?w1))"
    using assms by (simp add: SetStatus_simps)
  have st: "Status (mem (swaps ?w1) ! p) = CompletedSuccess"
    and k: "OfferID (mem (swaps ?w1) ! p) = OfferID (mem (swaps w) ! p)"
    using assms by (simp_all add: SetStatus_simps)
  have a: "Status (mem (swaps (snd (completeSwap c p w))) ! p) = CompletedSuccess"
    using CompleteOngoingSwap_Status [OF v, of "time_Now c"] st
    by (simp add: completeSwap_swaps [OF assms])
  have b: "map_of (ongoing (swaps (snd (completeSwap c p w)))) (OfferID (mem (swaps w) ! p)) = None \<and>
      map_of (past (swaps (snd (completeSwap c p w)))) (OfferID (mem (swaps w) ! p)) = Some p \<and>
      EndTime (mem (swaps (snd (completeSwap c p w))) ! p) = Some (length (times (swaps w))) \<and>
      times (swaps (snd (completeSwap c p w))) = times (swaps w) @ [time_Now c]"
    if "map_of (ongoing (swaps w)) (OfferID (mem (swaps w) ! p)) \<noteq> None"
  proof -
    from that obtain a where "map_of (ongoing (swaps ?w1)) (OfferID (mem (swaps ?w1) ! p)) = Some a"
      using k by (auto simp: SetStatus_simps)
    then show ?thesis
      using v k
      by (simp add: completeSwap_swaps [OF assms] CompleteOngoingSwap_def Let_def alloc_def
          SetStatus_simps AList.delete_conv' AList.update_conv' split: prod.splits)
  qed
  show ?thesis using a b by blast
qed

lemma newSwapStateFromOngoing_check_failed:
  "checkIfAlreadyClaimed c e = Inl err \<Longrightarrow>
   newSwapStateFromOngoing c offer' r e p sk w = (Inl err, w)"
  by (simp add: newSwapStateFromOngoing_def)

lemma newSwapStateFromOngoing_claimed:
  assumes "checkIfAlreadyClaimed c e = Inr True"
  shows "fst (newSwapStateFromOngoing c offer' r e p sk w) =
           Inl (case fst (completeSwap c p w) of
                  None \<Rightarrow> ErrAlreadyCompleted
                | Some err \<Rightarrow> Wrapped ''failed to complete swap'' err) \<and>
         snd (newSwapStateFromOngoing c offer' r e p sk w) = snd (completeSwap c p w)"
  using assms
  by (cases "completeSwap c p w")
     (simp add: newSwapStateFromOngoing_def split: option.splits)

lemma newSwapStateFromOngoing_wrong_status:
  assumes "checkIfAlreadyClaimed c e = Inr False" and "p < length (mem (swaps w))"
    and "Status (mem (swaps w) ! p) \<noteq> XMRLocked"
  shows "newSwapStateFromOngoing c offer' r e p sk w = (Inl ErrInvalidStageForRecovery, w)"
  using assms by (simp add: newSwapStateFromOngoing_def)

lemma newSwapState_Inr:
  "newSwapState c offer' r n h p w = (Inr s, w1) \<Longrightarrow>
   info s = p \<and> nextExpectedEvent s = nextExpectedEventFromStatus c (Status (mem (swaps w) ! p))"
  by (auto simp: newSwapState_def Let_def record_call_def split: if_splits option.splits prod.splits)

lemma newSwapStateFromOngoing_Inr:
  assumes "fst (newSwapStateFromOngoing c offer' r e p sk w) = Inr s"
  shows "checkIfAlreadyClaimed c e = Inr False \<and> p < length (mem (swaps w)) \<and>
         Status (mem (swaps w) ! p) = XMRLocked \<and>
         info s = p \<and> contractSwapID s = SwapID e \<and>
         nextExpectedEvent s = nextExpectedEventFromStatus c XMRLocked"
proof (cases "checkIfAlreadyClaimed c e")
  case (Inl err)
  with assms show ?thesis by (simp add: newSwapStateFromOngoing_def)
next
  case (Inr b)
  show ?thesis
  proof (cases b)
    case True
    with assms Inr show ?thesis
      by (cases "completeSwap c p w")
         (simp add: newSwapStateFromOngoing_def split: option.splits)
  next
    case False
    have v: "p < length (mem (swaps w))" and st: "Status (mem (swaps w) ! p) = XMRLocked"
      using assms Inr False
      by (auto simp: newSwapStateFromOngoing_def split: if_splits)
    obtain x w1 where ns: "newSwapState c offer' r (StartNumber e)
        (MoneroStartHeight (mem (swaps w) ! p)) p w = (x, w1)"
      by (cases "newSwapState c offer' r (StartNumber e)
        (MoneroStartHeight (mem (swaps w) ! p)) p w") simp
    from assms Inr False v st ns obtain s0 where x: "x = Inr s0"
      by (cases x) (auto simp: newSwapStateFromOngoing_def)
    have s0: "info s0 = p \<and> nextExpectedEvent s0 = nextExpectedEventFromStatus c XMRLocked"
      using newSwapState_Inr [OF ns [unfolded x]] st by simp
    from assms Inr False v st ns x s0 show ?thesis
      by (auto simp: newSwapStateFromOngoing_def setContract_def Let_def
          split: option.splits prod.splits)
  qed
qed

lemma newSwapStateFromOngoing_resumes:
  assumes "checkIfAlreadyClaimed c e = Inr False" and "p < length (mem (swaps w))"
    and "Status (mem (swaps w) ! p) = XMRLocked"
    and "EthAsset_IsToken offer' \<longrightarrow> NewIERC20_err c = None"
    and "NewTxSender_err c = None" and "readyWatcher_Start_err c = None"
    and "refundedWatcher_Start_err c = None" and "Backend_NewSwapCreator_err c = None"
  shows "\<exists>s. fst (newSwapStateFromOngoing c offer' r e p sk w) = Inr s"
  using assms
  by (auto simp: newSwapStateFromOngoing_def newSwapState_def setContract_def Let_def
      record_call_def split: prod.splits)

subsection \<open>Leaving a swap\<close>

text \<open>
  Claim C3, as the code has it: when \<open>exit\<close> returns and the manager has completed the
  swap, the offer is deleted only if the status is \<open>CompletedSuccess\<close>. With any other
  status, \<open>CompletedAbort\<close> among them, an offer that is set is added to the offer
  manager again, and an offer that is not set is left alone. When the manager fails to
  complete the swap, the deferred function returns after closing the stream and the
  offer is neither deleted nor added.
\<close>

theorem exit_offer_handling:
  assumes "info s < length (mem (swaps w))"
  shows "(fst (CompleteOngoingSwap (swaps w) (info s) (time_Now c)) \<noteq> None \<longrightarrow>
            calls (exit_deferred c s w) =
              calls w @ [CloseProtocolStream (OfferID (mem (swaps w) ! info s))]) \<and>
         (fst (CompleteOngoingSwap (swaps w) (info s) (time_Now c)) = None \<longrightarrow>
            calls (exit_deferred c s w) =
              calls w @ [CloseProtocolStream (OfferID (mem (swaps w) ! info s))] @
              (if Status (mem (swaps w) ! info s) = CompletedSuccess
               then [DeleteOffer (ID (offer s))]
               else if Offer_IsSet c (offer s)
               then [AddOffer (offer s) (offerExtra_UseRelayer s)]
               else []) @
              [RecoveryDB_DeleteSwap (ID (offer s)), CancelSwapContext, CloseDone])"
  using exit_deferred_failed [of w s c] exit_deferred_completed [OF assms, of c]
  by auto

text \<open>The theorem at a swap that succeeded and at a swap that was aborted.\<close>

theorem exit_offer_handling_witness:
  "info (example_state EventNoneType) < length (mem (swaps (example_world CompletedSuccess))) \<and>
   fst (CompleteOngoingSwap (swaps (example_world CompletedSuccess))
          (info (example_state EventNoneType)) (time_Now example_collaborators)) = None \<and>
   calls (exit_deferred example_collaborators (example_state EventNoneType)
            (example_world CompletedSuccess)) =
     [CloseProtocolStream 1, DeleteOffer 1, RecoveryDB_DeleteSwap 1, CancelSwapContext, CloseDone] \<and>
   info (example_state EventNoneType) < length (mem (swaps (example_world CompletedAbort))) \<and>
   fst (CompleteOngoingSwap (swaps (example_world CompletedAbort))
          (info (example_state EventNoneType)) (time_Now example_collaborators)) = None \<and>
   Offer_IsSet example_collaborators (offer (example_state EventNoneType)) \<and>
   calls (exit_deferred example_collaborators (example_state EventNoneType)
            (example_world CompletedAbort)) =
     [CloseProtocolStream 1, AddOffer example_offer False, RecoveryDB_DeleteSwap 1,
      CancelSwapContext, CloseDone]"
proof -
  have v: "info (example_state EventNoneType) < length (mem (swaps (example_world CompletedSuccess)))"
    "info (example_state EventNoneType) < length (mem (swaps (example_world CompletedAbort)))"
    by (simp_all add: example_state_def example_world_def)
  have ok: "fst (CompleteOngoingSwap (swaps (example_world CompletedSuccess))
          (info (example_state EventNoneType)) (time_Now example_collaborators)) = None"
    "fst (CompleteOngoingSwap (swaps (example_world CompletedAbort))
          (info (example_state EventNoneType)) (time_Now example_collaborators)) = None"
    by (simp_all add: CompleteOngoingSwap_def PutSwap_def alloc_def example_state_def
        example_world_def example_manager_def example_db_def example_info_def Let_def)
  have f: "Status (mem (swaps (example_world CompletedSuccess)) ! info (example_state EventNoneType))
       = CompletedSuccess"
    "Status (mem (swaps (example_world CompletedAbort)) ! info (example_state EventNoneType))
       = CompletedAbort"
    "OfferID (mem (swaps (example_world CompletedSuccess)) ! info (example_state EventNoneType)) = 1"
    "OfferID (mem (swaps (example_world CompletedAbort)) ! info (example_state EventNoneType)) = 1"
    "Offer_IsSet example_collaborators (offer (example_state EventNoneType))"
    "offer (example_state EventNoneType) = example_offer" "ID example_offer = 1"
    "offerExtra_UseRelayer (example_state EventNoneType) = False"
    "calls (example_world CompletedSuccess) = []" "calls (example_world CompletedAbort) = []"
    by (simp_all add: example_state_def example_world_def example_info_def
        example_collaborators_def example_offer_def)
  show ?thesis
    using exit_offer_handling [OF v(1), of example_collaborators]
      exit_offer_handling [OF v(2), of example_collaborators] v ok f
    by simp
qed

text \<open>
  Claim C3 as stated says that the offer is deleted on abort. Here the maker leaves a
  swap that still waits for the ETH lock: the swap is aborted and completed in the
  manager, and the offer is added again; \<open>DeleteOffer\<close> is not called.
\<close>

theorem exit_abort_counterexample:
  "Offer_IsSet example_collaborators example_offer \<and>
   exit example_collaborators (example_state EventETHLockedType) (example_world KeysExchanged) =
     Some (None, example_state EventNoneType,
       \<lparr>swaps = \<lparr>db = (example_db None)\<lparr>stored :=
                    [example_info\<lparr>Status := CompletedAbort, EndTime := Some 0\<rparr>]\<rparr>,
                 ongoing = [], past = [(1, 0)],
                 mem = [example_info\<lparr>Status := CompletedAbort, EndTime := Some 0\<rparr>],
                 times = [7], decimals = [1000, 100, 10]\<rparr>,
        calls = [ClearNextExpectedEvent CompletedAbort, CloseProtocolStream 1,
                 AddOffer example_offer False, RecoveryDB_DeleteSwap 1,
                 CancelSwapContext, CloseDone]\<rparr>)"
  by (simp add: exit_def exit_body_def exit_deferred_def clearNextExpectedEvent_def SetStatus_def
      record_call_def CompleteOngoingSwap_def PutSwap_def put_record_def alloc_def
      example_state_def example_world_def example_manager_def example_db_def example_info_def
      example_collaborators_def example_offer_def Let_def)

subsection \<open>Locking the Monero\<close>

text \<open>
  Claim C4: of the calls that \<open>lockFunds\<close> makes, a transfer is made only as the third,
  after the balance and after \<open>setNextExpectedEvent\<close> for \<open>EventContractReadyType\<close> has
  succeeded, and the state then expects that event. If \<open>setNextExpectedEvent\<close> fails,
  \<open>lockFunds\<close> returns an error, the wrapped one when the balance was read, and makes no
  transfer.
\<close>

theorem lockFunds_persists_before_transfer:
  "(case lockFunds c s amount w of
      (err, s', w') \<Rightarrow>
        (let made = drop (length (calls w)) (calls w')
         in calls w' = calls w @ made \<and>
            (list_ex is_Transfer made \<longrightarrow>
               made = [GetBalance, SetNextExpectedEvent EventContractReadyType,
                       Transfer (swapDestAddr c s) amount] \<and>
               setNextExpectedEvent_err c EventContractReadyType = None \<and>
               nextExpectedEvent s' = EventContractReadyType) \<and>
            (setNextExpectedEvent_err c EventContractReadyType \<noteq> None \<longrightarrow>
               err \<noteq> None \<and> \<not> list_ex is_Transfer made) \<and>
            (GetBalance_err c = None \<longrightarrow>
               (\<forall>e. setNextExpectedEvent_err c EventContractReadyType = Some e \<longrightarrow>
                  err = Some (Wrapped
                    ''failed to set next expected event to EventContractReadyType'' e) \<and>
                  made = [GetBalance, SetNextExpectedEvent EventContractReadyType]))))"
  by (auto simp: lockFunds_def setNextExpectedEvent_def record_call_def Let_def
      split: option.splits)

text \<open>
  The theorem where every call succeeds, and where persisting the next expected event
  fails.
\<close>

theorem lockFunds_persists_before_transfer_witness:
  "lockFunds example_collaborators (example_state EventETHLockedType) 5 (example_world ETHLocked) =
     (None, example_state EventContractReadyType,
      (example_world ETHLocked)\<lparr>calls := [GetBalance, SetNextExpectedEvent EventContractReadyType,
                                           Transfer 42 5]\<rparr>) \<and>
   list_ex is_Transfer [GetBalance, SetNextExpectedEvent EventContractReadyType, Transfer 42 5] \<and>
   setNextExpectedEvent_err
     (example_collaborators\<lparr>setNextExpectedEvent_err := (\<lambda>ev. Some (External 2))\<rparr>)
     EventContractReadyType = Some (External 2) \<and>
   lockFunds (example_collaborators\<lparr>setNextExpectedEvent_err := (\<lambda>ev. Some (External 2))\<rparr>)
     (example_state EventETHLockedType) 5 (example_world ETHLocked) =
     (Some (Wrapped ''failed to set next expected event to EventContractReadyType'' (External 2)),
      example_state EventETHLockedType,
      (example_world ETHLocked)\<lparr>calls := [GetBalance,
                                           SetNextExpectedEvent EventContractReadyType]\<rparr>)"
  using lockFunds_persists_before_transfer [where c = example_collaborators
      and s = "example_state EventETHLockedType" and amount = 5 and w = "example_world ETHLocked"]
    lockFunds_persists_before_transfer
      [where c = "example_collaborators\<lparr>setNextExpectedEvent_err := (\<lambda>ev. Some (External 2))\<rparr>"
       and s = "example_state EventETHLockedType" and amount = 5 and w = "example_world ETHLocked"]
  by (simp add: lockFunds_def setNextExpectedEvent_def record_call_def example_collaborators_def
      example_state_def example_world_def Let_def)

subsection \<open>Recovery of an ongoing swap\<close>

text \<open>
  Claim C5, where the code departs from it. \<open>checkIfAlreadyClaimed\<close> returns true exactly
  when the contract and the stage are read without error, the stage is \<open>Completed\<close>, and
  the loop over the logs filtered from the persisted start block stops at a log. The
  loop stops at a Claimed log that is not removed and is for our swap id; it also stops
  at a Claimed log that is not removed on which \<open>CheckSwapID\<close> fails with an error other
  than \<open>ErrLogNotForUs\<close>, because the error of \<open>CheckSwapID\<close> is only compared with
  \<open>ErrLogNotForUs\<close>. \<open>newSwapStateFromOngoing\<close> returns the error of the check if it has
  one. If the check is true it runs \<open>completeSwap\<close>, which sets the status to
  \<open>CompletedSuccess\<close> and moves an ongoing record to \<open>past\<close>, and returns an error, never
  a state. If the check is false, every status but \<open>XMRLocked\<close> gives
  \<open>errInvalidStageForRecovery\<close>; a state is returned only for \<open>XMRLocked\<close>, and it is
  returned there whenever the sender and the watchers start.
\<close>

theorem newSwapStateFromOngoing_recovery:
  "(checkIfAlreadyClaimed c e = Inr True \<longleftrightarrow>
      contracts_NewSwapCreator_err c = None \<and> Swaps_result c (SwapID e) = Inr StageCompleted \<and>
      (\<exists>logs. FilterLogs_result c (StartNumber e) (SwapCreatorAddr e) = Inr logs \<and>
              claimed_log_found c (SwapID e) logs = Inr True)) \<and>
   (\<forall>logs. claimed_log_found c (SwapID e) logs = Inr True \<longrightarrow>
            list_ex (\<lambda>l. claimed_log_for_us c (SwapID e) l \<or> claimed_log_unchecked c (SwapID e) l)
              logs) \<and>
   (\<forall>logs. list_all (\<lambda>l. Topics l \<noteq> []) logs \<longrightarrow>
            claimed_log_found c (SwapID e) logs =
              Inr (list_ex (\<lambda>l. claimed_log_for_us c (SwapID e) l \<or> claimed_log_unchecked c (SwapID e) l)
                     logs)) \<and>
   (\<forall>err. checkIfAlreadyClaimed c e = Inl err \<longrightarrow>
           newSwapStateFromOngoing c offer' r e p sk w = (Inl err, w)) \<and>
   (checkIfAlreadyClaimed c e = Inr True \<longrightarrow>
      fst (newSwapStateFromOngoing c offer' r e p sk w) =
        Inl (case fst (completeSwap c p w) of
               None \<Rightarrow> ErrAlreadyCompleted
             | Some err \<Rightarrow> Wrapped ''failed to complete swap'' err) \<and>
      snd (newSwapStateFromOngoing c offer' r e p sk w) = snd (completeSwap c p w) \<and>
      (p < length (mem (swaps w)) \<longrightarrow>
         Status (mem (swaps (snd (completeSwap c p w))) ! p) = CompletedSuccess \<and>
         (map_of (ongoing (swaps w)) (OfferID (mem (swaps w) ! p)) \<noteq> None \<longrightarrow>
            map_of (ongoing (swaps (snd (completeSwap c p w))))
              (OfferID (mem (swaps w) ! p)) = None \<and>
            map_of (past (swaps (snd (completeSwap c p w))))
              (OfferID (mem (swaps w) ! p)) = Some p \<and>
            EndTime (mem (swaps (snd (completeSwap c p w))) ! p) =
              Some (length (times (swaps w))) \<and>
            times (swaps (snd (completeSwap c p w))) = times (swaps w) @ [time_Now c]))) \<and>
   (checkIfAlreadyClaimed c e = Inr False \<longrightarrow> p < length (mem (swaps w)) \<longrightarrow>
      Status (mem (swaps w) ! p) \<noteq> XMRLocked \<longrightarrow>
      newSwapStateFromOngoing c offer' r e p sk w = (Inl ErrInvalidStageForRecovery, w)) \<and>
   (\<forall>s. fst (newSwapStateFromOngoing c offer' r e p sk w) = Inr s \<longrightarrow>
        checkIfAlreadyClaimed c e = Inr False \<and> p < length (mem (swaps w)) \<and>
        Status (mem (swaps w) ! p) = XMRLocked \<and>
        info s = p \<and> contractSwapID s = SwapID e \<and>
        nextExpectedEvent s = nextExpectedEventFromStatus c XMRLocked) \<and>
   (checkIfAlreadyClaimed c e = Inr False \<longrightarrow> p < length (mem (swaps w)) \<longrightarrow>
      Status (mem (swaps w) ! p) = XMRLocked \<longrightarrow>
      (EthAsset_IsToken offer' \<longrightarrow> NewIERC20_err c = None) \<longrightarrow>
      NewTxSender_err c = None \<longrightarrow> readyWatcher_Start_err c = None \<longrightarrow>
      refundedWatcher_Start_err c = None \<longrightarrow> Backend_NewSwapCreator_err c = None \<longrightarrow>
      (\<exists>s. fst (newSwapStateFromOngoing c offer' r e p sk w) = Inr s))"
proof (intro conjI allI impI)
  show "checkIfAlreadyClaimed c e = Inr True \<longleftrightarrow>
      contracts_NewSwapCreator_err c = None \<and> Swaps_result c (SwapID e) = Inr StageCompleted \<and>
      (\<exists>logs. FilterLogs_result c (StartNumber e) (SwapCreatorAddr e) = Inr logs \<and>
              claimed_log_found c (SwapID e) logs = Inr True)"
    by (rule checkIfAlreadyClaimed_True)
next
  fix logs assume "claimed_log_found c (SwapID e) logs = Inr True"
  then show "list_ex (\<lambda>l. claimed_log_for_us c (SwapID e) l \<or> claimed_log_unchecked c (SwapID e) l)
      logs"
    by (rule claimed_log_found_True)
next
  fix logs :: "Log list" assume "list_all (\<lambda>l. Topics l \<noteq> []) logs"
  then show "claimed_log_found c (SwapID e) logs =
      Inr (list_ex (\<lambda>l. claimed_log_for_us c (SwapID e) l \<or> claimed_log_unchecked c (SwapID e) l)
             logs)"
    by (rule claimed_log_found_wellformed)
next
  fix err assume "checkIfAlreadyClaimed c e = Inl err"
  then show "newSwapStateFromOngoing c offer' r e p sk w = (Inl err, w)"
    by (rule newSwapStateFromOngoing_check_failed)
next
  assume a: "checkIfAlreadyClaimed c e = Inr True"
  show "fst (newSwapStateFromOngoing c offer' r e p sk w) =
        Inl (case fst (completeSwap c p w) of
               None \<Rightarrow> ErrAlreadyCompleted
             | Some err \<Rightarrow> Wrapped ''failed to complete swap'' err)"
    using newSwapStateFromOngoing_claimed [OF a] by blast
  show "snd (newSwapStateFromOngoing c offer' r e p sk w) = snd (completeSwap c p w)"
    using newSwapStateFromOngoing_claimed [OF a] by blast
  {
    assume v: "p < length (mem (swaps w))"
    show "Status (mem (swaps (snd (completeSwap c p w))) ! p) = CompletedSuccess"
      using completeSwap_completes [OF v] by blast
    assume o: "map_of (ongoing (swaps w)) (OfferID (mem (swaps w) ! p)) \<noteq> None"
    show "map_of (ongoing (swaps (snd (completeSwap c p w))))
              (OfferID (mem (swaps w) ! p)) = None"
      using completeSwap_completes [OF v, of c] o by blast
    show "map_of (past (swaps (snd (completeSwap c p w))))
              (OfferID (mem (swaps w) ! p)) = Some p"
      using completeSwap_completes [OF v, of c] o by blast
    show "EndTime (mem (swaps (snd (completeSwap c p w))) ! p) =
              Some (length (times (swaps w)))"
      using completeSwap_completes [OF v, of c] o by blast
    show "times (swaps (snd (completeSwap c p w))) = times (swaps w) @ [time_Now c]"
      using completeSwap_completes [OF v, of c] o by blast
  }
next
  assume "checkIfAlreadyClaimed c e = Inr False" "p < length (mem (swaps w))"
    "Status (mem (swaps w) ! p) \<noteq> XMRLocked"
  then show "newSwapStateFromOngoing c offer' r e p sk w = (Inl ErrInvalidStageForRecovery, w)"
    by (rule newSwapStateFromOngoing_wrong_status)
next
  fix s assume a: "fst (newSwapStateFromOngoing c offer' r e p sk w) = Inr s"
  show "checkIfAlreadyClaimed c e = Inr False" "p < length (mem (swaps w))"
    "Status (mem (swaps w) ! p) = XMRLocked" "info s = p" "contractSwapID s = SwapID e"
    "nextExpectedEvent s = nextExpectedEventFromStatus c XMRLocked"
    using newSwapStateFromOngoing_Inr [OF a] by blast+
next
  assume "checkIfAlreadyClaimed c e = Inr False" "p < length (mem (swaps w))"
    "Status (mem (swaps w) ! p) = XMRLocked"
    "EthAsset_IsToken offer' \<longrightarrow> NewIERC20_err c = None"
    "NewTxSender_err c = None" "readyWatcher_Start_err c = None"
    "refundedWatcher_Start_err c = None" "Backend_NewSwapCreator_err c = None"
  then show "\<exists>s. fst (newSwapStateFromOngoing c offer' r e p sk w) = Inr s"
    by (rule newSwapStateFromOngoing_resumes)
qed

text \<open>
  The theorem at a chain where our claim is found (the swap is completed and an error
  returned), and at a chain without a claim, once for a record in status \<open>ETHLocked\<close>
  and once for a record in status \<open>XMRLocked\<close>.
\<close>

theorem newSwapStateFromOngoing_recovery_witness:
  "checkIfAlreadyClaimed claimed_collaborators example_swap_info = Inr True \<and>
   Swaps_result claimed_collaborators (SwapID example_swap_info) = Inr StageCompleted \<and>
   claimed_log_for_us claimed_collaborators (SwapID example_swap_info) claimed_log \<and>
   0 < length (mem (swaps (example_world ETHLocked))) \<and>
   map_of (ongoing (swaps (example_world ETHLocked))) 1 = Some 0 \<and>
   fst (newSwapStateFromOngoing claimed_collaborators example_offer False example_swap_info 0 3
          (example_world ETHLocked)) = Inl ErrAlreadyCompleted \<and>
   Status (mem (swaps (snd (newSwapStateFromOngoing claimed_collaborators example_offer False
      example_swap_info 0 3 (example_world ETHLocked)))) ! 0) = CompletedSuccess \<and>
   map_of (ongoing (swaps (snd (newSwapStateFromOngoing claimed_collaborators example_offer False
      example_swap_info 0 3 (example_world ETHLocked))))) 1 = None \<and>
   map_of (past (swaps (snd (newSwapStateFromOngoing claimed_collaborators example_offer False
      example_swap_info 0 3 (example_world ETHLocked))))) 1 = Some 0 \<and>
   times (swaps (snd (newSwapStateFromOngoing claimed_collaborators example_offer False
      example_swap_info 0 3 (example_world ETHLocked)))) = [7] \<and>
   checkIfAlreadyClaimed example_collaborators example_swap_info = Inr False \<and>
   Status (mem (swaps (example_world ETHLocked)) ! 0) = ETHLocked \<and>
   newSwapStateFromOngoing example_collaborators example_offer False example_swap_info 0 3
     (example_world ETHLocked) = (Inl ErrInvalidStageForRecovery, example_world ETHLocked) \<and>
   Status (mem (swaps (example_world XMRLocked)) ! 0) = XMRLocked \<and>
   fst (newSwapStateFromOngoing example_collaborators example_offer False example_swap_info 0 3
          (example_world XMRLocked)) =
     Inr ((example_state EventContractReadyType)
            \<lparr>contractSwap := Some \<lparr>Timeout0 = 1, Timeout1 = 2\<rparr>, timeouts := Some (1, 2)\<rparr>)"
proof -
  have c1: "checkIfAlreadyClaimed claimed_collaborators example_swap_info = Inr True"
    by (simp add: checkIfAlreadyClaimed_def claimed_collaborators_def example_collaborators_def
        example_swap_info_def claimed_log_def)
  have c2: "checkIfAlreadyClaimed example_collaborators example_swap_info = Inr False"
    by (simp add: checkIfAlreadyClaimed_def example_collaborators_def example_swap_info_def)
  have sw: "Swaps_result claimed_collaborators (SwapID example_swap_info) = Inr StageCompleted"
    by (simp add: claimed_collaborators_def)
  have lg: "claimed_log_for_us claimed_collaborators (SwapID example_swap_info) claimed_log"
    by (simp add: claimed_log_for_us_def claimed_collaborators_def example_collaborators_def
        example_swap_info_def claimed_log_def)
  have w: "0 < length (mem (swaps (example_world ETHLocked)))"
    "0 < length (mem (swaps (example_world XMRLocked)))"
    "map_of (ongoing (swaps (example_world ETHLocked))) 1 = Some 0"
    "OfferID (mem (swaps (example_world ETHLocked)) ! 0) = 1"
    "Status (mem (swaps (example_world ETHLocked)) ! 0) = ETHLocked"
    "Status (mem (swaps (example_world XMRLocked)) ! 0) = XMRLocked"
    by (simp_all add: example_world_def example_manager_def example_info_def)
  have tm: "times (swaps (example_world ETHLocked)) = []" "time_Now claimed_collaborators = 7"
    by (simp_all add: example_world_def example_manager_def claimed_collaborators_def
        example_collaborators_def)
  have cs: "fst (completeSwap claimed_collaborators 0 (example_world ETHLocked)) = None"
    by (simp add: completeSwap_def SetStatus_def CompleteOngoingSwap_def PutSwap_def alloc_def
        record_call_def example_world_def example_manager_def example_db_def example_info_def
        claimed_collaborators_def example_collaborators_def Let_def)
  have r: "fst (newSwapStateFromOngoing example_collaborators example_offer False
          example_swap_info 0 3 (example_world XMRLocked)) =
     Inr ((example_state EventContractReadyType)
            \<lparr>contractSwap := Some \<lparr>Timeout0 = 1, Timeout1 = 2\<rparr>, timeouts := Some (1, 2)\<rparr>)"
    using c2
    by (simp add: newSwapStateFromOngoing_def newSwapState_def setContract_def record_call_def
        example_world_def example_manager_def example_info_def example_collaborators_def
        example_offer_def example_swap_info_def example_state_def Let_def)
  note th1 = newSwapStateFromOngoing_recovery [where c = claimed_collaborators
      and e = example_swap_info and offer' = example_offer and r = False and p = 0 and sk = 3
      and w = "example_world ETHLocked"]
  note th2 = newSwapStateFromOngoing_recovery [where c = example_collaborators
      and e = example_swap_info and offer' = example_offer and r = False and p = 0 and sk = 3
      and w = "example_world ETHLocked"]
  have a: "fst (newSwapStateFromOngoing claimed_collaborators example_offer False
          example_swap_info 0 3 (example_world ETHLocked)) = Inl ErrAlreadyCompleted"
    "snd (newSwapStateFromOngoing claimed_collaborators example_offer False
          example_swap_info 0 3 (example_world ETHLocked)) =
       snd (completeSwap claimed_collaborators 0 (example_world ETHLocked))"
    "Status (mem (swaps (snd (completeSwap claimed_collaborators 0 (example_world ETHLocked)))) ! 0)
       = CompletedSuccess"
    "map_of (ongoing (swaps (snd (completeSwap claimed_collaborators 0
       (example_world ETHLocked))))) 1 = None"
    "map_of (past (swaps (snd (completeSwap claimed_collaborators 0
       (example_world ETHLocked))))) 1 = Some 0"
    "times (swaps (snd (completeSwap claimed_collaborators 0 (example_world ETHLocked)))) = [7]"
    using th1 c1 cs w tm by simp_all
  have b: "newSwapStateFromOngoing example_collaborators example_offer False example_swap_info 0 3
     (example_world ETHLocked) = (Inl ErrInvalidStageForRecovery, example_world ETHLocked)"
    using th2 c2 w by simp
  show ?thesis
    using c1 c2 sw lg w a b r by simp
qed

text \<open>
  Claim C5 as stated lets recovery complete the swap only for a Claimed log for our swap
  id. Here the stage is \<open>Completed\<close>, the filter returns one live log with the Claimed
  topic and no second topic, on which \<open>CheckSwapID\<close> fails with an error of its own, and
  the record is in status \<open>ETHLocked\<close>. No log is for our swap id, and yet the check is
  true: recovery completes the swap and returns \<open>errAlreadyCompleted\<close>, not
  \<open>errInvalidStageForRecovery\<close>.
\<close>

theorem newSwapStateFromOngoing_unchecked_log_counterexample:
  "contracts_NewSwapCreator_err unchecked_collaborators = None \<and>
   Swaps_result unchecked_collaborators (SwapID example_swap_info) = Inr StageCompleted \<and>
   FilterLogs_result unchecked_collaborators (StartNumber example_swap_info)
     (SwapCreatorAddr example_swap_info) = Inr [short_log] \<and>
   Topics short_log = [claimedTopic unchecked_collaborators] \<and>
   \<not> Removed short_log \<and>
   CheckSwapID unchecked_collaborators short_log (claimedTopic unchecked_collaborators)
     (SwapID example_swap_info) = Some (External 9) \<and>
   \<not> errors_Is (External 9) ErrLogNotForUs \<and>
   \<not> list_ex (claimed_log_for_us unchecked_collaborators (SwapID example_swap_info))
        [short_log] \<and>
   claimed_log_unchecked unchecked_collaborators (SwapID example_swap_info) short_log \<and>
   Status (mem (swaps (example_world ETHLocked)) ! 0) = ETHLocked \<and>
   map_of (ongoing (swaps (example_world ETHLocked))) 1 = Some 0 \<and>
   checkIfAlreadyClaimed unchecked_collaborators example_swap_info = Inr True \<and>
   fst (newSwapStateFromOngoing unchecked_collaborators example_offer False example_swap_info
          0 3 (example_world ETHLocked)) = Inl ErrAlreadyCompleted \<and>
   fst (newSwapStateFromOngoing unchecked_collaborators example_offer False example_swap_info
          0 3 (example_world ETHLocked)) \<noteq> Inl ErrInvalidStageForRecovery \<and>
   Status (mem (swaps (snd (newSwapStateFromOngoing unchecked_collaborators example_offer
      False example_swap_info 0 3 (example_world ETHLocked)))) ! 0) = CompletedSuccess \<and>
   map_of (ongoing (swaps (snd (newSwapStateFromOngoing unchecked_collaborators example_offer
      False example_swap_info 0 3 (example_world ETHLocked))))) 1 = None \<and>
   map_of (past (swaps (snd (newSwapStateFromOngoing unchecked_collaborators example_offer
      False example_swap_info 0 3 (example_world ETHLocked))))) 1 = Some 0"
  by (simp add: newSwapStateFromOngoing_def checkIfAlreadyClaimed_def completeSwap_def
      SetStatus_def CompleteOngoingSwap_def PutSwap_def put_record_def alloc_def record_call_def
      claimed_log_for_us_def claimed_log_unchecked_def unchecked_collaborators_def
      example_collaborators_def example_swap_info_def short_log_def example_world_def
      example_manager_def example_db_def example_info_def example_offer_def Let_def)
end
